theory Spec2Isabelle
  imports Main "HOL-Library.Char_ord"
begin

section \<open>The application environment of the pipeline bootstrap\<close>

text \<open>
  A shallow embedding of \<^verbatim>\<open>samcli/lib/pipeline/bootstrap/environment.py\<close>: the class
  \<^verbatim>\<open>Environment\<close> with its methods \<^verbatim>\<open>did_user_provide_all_required_resources\<close>,
  \<^verbatim>\<open>bootstrap\<close>, \<^verbatim>\<open>save_config\<close>, \<^verbatim>\<open>save_config_safe\<close> and \<^verbatim>\<open>_get_stack_name\<close>.
  Python methods whose names start with an underscore keep their names without it.
  A Python \<^verbatim>\<open>str\<close> is a \<^typ>\<open>string\<close>, an \<^verbatim>\<open>Optional[str]\<close> a \<^typ>\<open>string option\<close>.
\<close>

subsection \<open>Python values\<close>

text \<open>The truth value of an \<^verbatim>\<open>Optional[str]\<close>: \<^verbatim>\<open>None\<close> and \<^verbatim>\<open>""\<close> are false.\<close>

definition truthy :: "string option \<Rightarrow> bool" where
  "truthy v = (case v of None \<Rightarrow> False | Some s \<Rightarrow> s \<noteq> [])"

text \<open>The expression \<^verbatim>\<open>v or ""\<close> for an \<^verbatim>\<open>Optional[str]\<close>.\<close>

definition or_empty :: "string option \<Rightarrow> string" where
  "or_empty v = (case v of None \<Rightarrow> [] | Some s \<Rightarrow> s)"

text \<open>\<^verbatim>\<open>sep.join(xs)\<close>.\<close>

fun join :: "string \<Rightarrow> string list \<Rightarrow> string" where
  "join sep [] = []"
| "join sep [x] = x"
| "join sep (x # y # ys) = x @ sep @ join sep (y # ys)"

subsection \<open>Resource descriptors\<close>

text \<open>
  The classes \<^verbatim>\<open>Resource\<close>, \<^verbatim>\<open>IAMUser\<close> and \<^verbatim>\<open>ECRImageRepository\<close> are imported from
  \<^verbatim>\<open>samcli.lib.pipeline.bootstrap.resource\<close>. The environment reads and writes their
  attributes \<^verbatim>\<open>arn\<close>, \<^verbatim>\<open>comment\<close>, \<^verbatim>\<open>is_user_provided\<close>, \<^verbatim>\<open>access_key_id\<close> and
  \<^verbatim>\<open>secret_access_key\<close>; these are the fields of the records. An image repository has
  the fields of a plain resource.
\<close>

record Resource =
  arn :: "string option"
  comment :: string
  is_user_provided :: bool

record IAMUser = Resource +
  access_key_id :: "string option"
  secret_access_key :: "string option"

type_synonym ECRImageRepository = Resource

text \<open>
  Modelled from the spec: the constructors of \<^verbatim>\<open>Resource\<close> and \<^verbatim>\<open>IAMUser\<close> (module
  \<^verbatim>\<open>resource.py\<close>), which set the derived flag: \<^verbatim>\<open>is_user_provided\<close> holds when the
  identifier is non-empty at construction time. The credential pair of a new
  pipeline user is unset.
\<close>

definition Resource_init :: "string option \<Rightarrow> string \<Rightarrow> Resource" where
  "Resource_init a c = \<lparr>arn = a, comment = c, is_user_provided = truthy a\<rparr>"

definition IAMUser_init :: "string option \<Rightarrow> string \<Rightarrow> IAMUser" where
  "IAMUser_init a c =
     \<lparr>arn = a, comment = c, is_user_provided = truthy a,
      access_key_id = None, secret_access_key = None\<rparr>"

subsection \<open>The environment\<close>

record Environment =
  name :: string
  aws_profile :: "string option"
  aws_region :: "string option"
  pipeline_user :: IAMUser
  pipeline_execution_role :: Resource
  cloudformation_execution_role :: Resource
  artifacts_bucket :: Resource
  create_image_repository :: bool
  image_repository :: ECRImageRepository

definition STACK_NAME_PREFIX :: string where
  "STACK_NAME_PREFIX = ''aws-sam-cli-managed''"

definition ENVIRONMENT_RESOURCES_STACK_NAME_SUFFIX :: string where
  "ENVIRONMENT_RESOURCES_STACK_NAME_SUFFIX = ''pipeline-resources''"

definition PIPELINE_USER :: string where
  "PIPELINE_USER = ''pipeline_user''"

definition PIPELINE_EXECUTION_ROLE :: string where
  "PIPELINE_EXECUTION_ROLE = ''pipeline_execution_role''"

definition CLOUDFORMATION_EXECUTION_ROLE :: string where
  "CLOUDFORMATION_EXECUTION_ROLE = ''cloudformation_execution_role''"

definition ARTIFACTS_BUCKET :: string where
  "ARTIFACTS_BUCKET = ''artifacts_bucket''"

definition ECR_IMAGE_REPOSITORY :: string where
  "ECR_IMAGE_REPOSITORY = ''image_repository''"

definition REGION :: string where
  "REGION = ''region''"

text \<open>\<^verbatim>\<open>Environment.__init__\<close>, with the defaults of its keyword arguments written out by the caller.\<close>

definition Environment_init ::
  "string \<Rightarrow> string option \<Rightarrow> string option \<Rightarrow> string option \<Rightarrow> string option \<Rightarrow>
   string option \<Rightarrow> string option \<Rightarrow> bool \<Rightarrow> string option \<Rightarrow> Environment" where
  "Environment_init nm profile region pipeline_user_arn pipeline_execution_role_arn
     cloudformation_execution_role_arn artifacts_bucket_arn create image_repository_arn =
     \<lparr>name = nm,
      aws_profile = profile,
      aws_region = region,
      pipeline_user = IAMUser_init pipeline_user_arn ''Pipeline IAM user'',
      pipeline_execution_role = Resource_init pipeline_execution_role_arn ''Pipeline execution role'',
      cloudformation_execution_role =
        Resource_init cloudformation_execution_role_arn ''CloudFormation execution role'',
      artifacts_bucket = Resource_init artifacts_bucket_arn ''Artifact bucket'',
      create_image_repository = create,
      image_repository = Resource_init image_repository_arn ''ECR image repository''\<rparr>"

text \<open>
  \<^verbatim>\<open>_get_resources\<close>: the four required descriptors, then the image repository when it
  is to be created or its ARN is set. The pipeline user is listed as a plain resource.
\<close>

definition get_resources :: "Environment \<Rightarrow> Resource list" where
  "get_resources self =
     [Resource.truncate (pipeline_user self),
      pipeline_execution_role self,
      cloudformation_execution_role self,
      artifacts_bucket self]
     @ (if create_image_repository self \<or> truthy (arn (image_repository self))
        then [image_repository self] else [])"

definition did_user_provide_all_required_resources :: "Environment \<Rightarrow> bool" where
  "did_user_provide_all_required_resources self =
     list_all is_user_provided (get_resources self)"

text \<open>
  \<^verbatim>\<open>_get_non_user_provided_resources_msg\<close>: one line per resource that is to be created.
\<close>

definition get_non_user_provided_resources_msg :: "Environment \<Rightarrow> string" where
  "get_non_user_provided_resources_msg self =
     (let resource_comments = concat
        [if is_user_provided (pipeline_user self) then [] else [comment (pipeline_user self)],
         if is_user_provided (pipeline_execution_role self) then []
         else [comment (pipeline_execution_role self)],
         if is_user_provided (cloudformation_execution_role self) then []
         else [comment (cloudformation_execution_role self)],
         if is_user_provided (artifacts_bucket self) then [] else [comment (artifacts_bucket self)],
         if is_user_provided (image_repository self) \<or> \<not> create_image_repository self then []
         else [comment (image_repository self)]]
      in join [CHR 0x0A] (map (\<lambda>c. ''  - '' @ c) resource_comments))"

subsection \<open>The stack name\<close>

text \<open>The characters outside the class \<^verbatim>\<open>[^0-9a-zA-Z]\<close>.\<close>

definition alnum :: "char \<Rightarrow> bool" where
  "alnum c \<longleftrightarrow>
     (CHR ''0'' \<le> c \<and> c \<le> CHR ''9'') \<or>
     (CHR ''a'' \<le> c \<and> c \<le> CHR ''z'') \<or>
     (CHR ''A'' \<le> c \<and> c \<le> CHR ''Z'')"

text \<open>
  \<^verbatim>\<open>re.sub("[^0-9a-zA-Z]+", "-", s)\<close>, as the regular expression engine runs it: scanning
  from the left, a character of the class \<^verbatim>\<open>[0-9a-zA-Z]\<close> is copied; at any other
  character the greedy \<^verbatim>\<open>+\<close> takes all the characters outside the class that follow,
  the match is replaced by one hyphen and the scan goes on after the match. A
  character beyond ASCII is outside the class, in Python as code point and here as
  the bytes of its encoding.
\<close>

function re_sub_non_alnum :: "string \<Rightarrow> string" where
  "re_sub_non_alnum [] = []"
| "re_sub_non_alnum (c # cs) =
     (if alnum c then c # re_sub_non_alnum cs
      else CHR ''-'' # re_sub_non_alnum (dropWhile (\<lambda>x. \<not> alnum x) cs))"
  by pat_completeness auto
termination
proof (relation "measure length")
  fix c :: char and cs :: string
  have "length (dropWhile (\<lambda>x. \<not> alnum x) cs) \<le> length cs"
    by (rule length_dropWhile_le)
  then show "(dropWhile (\<lambda>x. \<not> alnum x) cs, c # cs) \<in> measure length"
    by simp
qed simp_all

definition get_stack_name :: "Environment \<Rightarrow> string" where
  "get_stack_name self =
     STACK_NAME_PREFIX @ ''-'' @ re_sub_non_alnum (name self) @ ''-''
       @ ENVIRONMENT_RESOURCES_STACK_NAME_SUFFIX"

text \<open>
  The sanitization in the words of the specification: the string is cut into its
  maximal runs of characters of the same kind (alphanumeric or not), and every run of
  non-alphanumeric characters is replaced by a single hyphen.
\<close>

fun runs :: "('a \<Rightarrow> bool) \<Rightarrow> 'a list \<Rightarrow> 'a list list" where
  "runs P [] = []"
| "runs P (c # cs) =
     (case runs P cs of
        [] \<Rightarrow> [[c]]
      | r # rs \<Rightarrow> if P c = P (hd r) then (c # r) # rs else [c] # r # rs)"

fun alternating :: "('a \<Rightarrow> bool) \<Rightarrow> 'a list list \<Rightarrow> bool" where
  "alternating P (r # q # rs) \<longleftrightarrow> P (hd r) \<noteq> P (hd q) \<and> alternating P (q # rs)"
| "alternating P rs \<longleftrightarrow> True"

definition collapse_runs :: "string \<Rightarrow> string" where
  "collapse_runs s =
     concat (map (\<lambda>r. if alnum (hd r) then r else ''-'') (runs alnum s))"

subsection \<open>The collaborators and what the environment does to them\<close>

text \<open>
  An exception raised by a collaborator: a \<^verbatim>\<open>ValueError\<close>, a \<^verbatim>\<open>KeyError\<close> or any other
  exception class derived from \<^verbatim>\<open>Exception\<close>, each with its message, or one of the
  classes derived from \<^verbatim>\<open>BaseException\<close> only, \<^verbatim>\<open>KeyboardInterrupt\<close> and \<^verbatim>\<open>SystemExit\<close>.
  A handler \<^verbatim>\<open>except Exception\<close> catches the former and lets the latter through.
\<close>

datatype exn =
    ValueError string
  | KeyError string
  | Exception string
  | KeyboardInterrupt
  | SystemExit

fun is_Exception :: "exn \<Rightarrow> bool" where
  "is_Exception (ValueError m) = True"
| "is_Exception (KeyError m) = True"
| "is_Exception (Exception m) = True"
| "is_Exception KeyboardInterrupt = False"
| "is_Exception SystemExit = False"

datatype colour = Yellow | Red

text \<open>
  The calls that leave the environment, in the order they are made: console output
  (\<^verbatim>\<open>click.secho\<close> with a colour, \<^verbatim>\<open>click.echo\<close>), the prompt \<^verbatim>\<open>click.confirm\<close>, the
  reading of a template file, \<^verbatim>\<open>manage_stack\<close> (stack name, region, profile, template
  body, parameter overrides), \<^verbatim>\<open>boto3.Session\<close> (profile, region), the session's
  \<^verbatim>\<open>client\<close> (service name), the secrets manager's \<^verbatim>\<open>get_secret_value\<close> (profile and
  region of the session, secret id), and the configuration store: \<^verbatim>\<open>SamConfig(config_dir, filename)\<close>,
  \<^verbatim>\<open>put(cmd_names, section, key, value, env)\<close>, where no \<^verbatim>\<open>env\<close> argument is \<open>None\<close>,
  and \<^verbatim>\<open>flush()\<close>.
\<close>

datatype event =
    Secho colour string
  | Echo string
  | Confirm string
  | ReadTemplate string
  | ManageStack string "string option" "string option" string "(string \<times> string) list"
  | Boto3Session "string option" "string option"
  | SessionClient string
  | GetSecretValue "string option" "string option" string
  | SamConfigNew string string
  | SamConfigPut "string list" string string string "string option"
  | SamConfigFlush

type_synonym StackOutput = "string \<rightharpoonup> string"

text \<open>
  What the collaborators answer. They lie outside the module; each is a parameter:
  the user's answer to a confirmation prompt, the template file of a given name beside
  the module (\<^verbatim>\<open>open\<close> and \<^verbatim>\<open>read\<close> give its content or raise), the provisioning
  backend \<^verbatim>\<open>manage_stack\<close> (it returns the stack's outputs, read by
  \<^verbatim>\<open>output.get(key)\<close>, or raises), the creation of a \<^verbatim>\<open>boto3\<close> session for a profile and
  a region and of a client of that session for a service (\<open>None\<close>: no exception), the
  secrets manager (it returns the response dictionary or raises), \<^verbatim>\<open>json.loads\<close> on a secret string (an object of string
  fields, or it raises), the methods \<^verbatim>\<open>Resource.name()\<close> and
  \<^verbatim>\<open>ECRImageRepository.get_uri()\<close> of \<^verbatim>\<open>resource.py\<close> (an \<^verbatim>\<open>Optional[str]\<close>, or they
  raise), and the three operations of the configuration store (\<open>None\<close>: no exception).
\<close>

record world =
  click_confirm :: "string \<Rightarrow> bool"
  read_template :: "string \<Rightarrow> exn + string"
  manage_stack ::
    "string \<Rightarrow> string option \<Rightarrow> string option \<Rightarrow> string \<Rightarrow> (string \<times> string) list
       \<Rightarrow> exn + StackOutput"
  boto3_Session :: "string option \<Rightarrow> string option \<Rightarrow> exn option"
  session_client :: "string option \<Rightarrow> string option \<Rightarrow> string \<Rightarrow> exn option"
  get_secret_value :: "string option \<Rightarrow> string option \<Rightarrow> string \<Rightarrow> exn + (string \<rightharpoonup> string)"
  json_loads :: "string \<Rightarrow> exn + (string \<rightharpoonup> string)"
  resource_name :: "Resource \<Rightarrow> exn + string option"
  get_uri :: "ECRImageRepository \<Rightarrow> exn + string option"
  samconfig_new :: "string \<Rightarrow> string \<Rightarrow> exn option"
  samconfig_put :: "string list \<Rightarrow> string \<Rightarrow> string \<Rightarrow> string \<Rightarrow> string option \<Rightarrow> exn option"
  samconfig_flush :: "exn option"

definition ENVIRONMENT_RESOURCES_CFN_TEMPLATE :: string where
  "ENVIRONMENT_RESOURCES_CFN_TEMPLATE = ''environment_resources.yaml''"

text \<open>The calls to the provisioning backend and to the secrets manager in a log.\<close>

fun is_manage_stack :: "event \<Rightarrow> bool" where
  "is_manage_stack (ManageStack _ _ _ _ _) = True"
| "is_manage_stack _ = False"

fun is_get_secret_value :: "event \<Rightarrow> bool" where
  "is_get_secret_value (GetSecretValue _ _ _) = True"
| "is_get_secret_value _ = False"

definition provisioning_calls :: "event list \<Rightarrow> event list" where
  "provisioning_calls log = filter is_manage_stack log"

definition secret_lookups :: "event list \<Rightarrow> event list" where
  "secret_lookups log = filter is_get_secret_value log"

text \<open>The pairs written to the configuration store in a log, in order.\<close>

fun puts :: "event list \<Rightarrow> (string list \<times> string \<times> string \<times> string \<times> string option) list" where
  "puts [] = []"
| "puts (SamConfigPut cmd_names sect key v env # log) = (cmd_names, sect, key, v, env) # puts log"
| "puts (_ # log) = puts log"

subsection \<open>Bootstrapping\<close>

text \<open>
  \<^verbatim>\<open>_get_pipeline_user_secret_pair\<close>: a session is created for the profile and the region
  (\<^verbatim>\<open>None\<close> for an empty region), then its client for the secrets manager, then the one
  call \<^verbatim>\<open>get_secret_value\<close> is made; the secret string is read from the response and
  parsed, and the two keys are read from the result. Each of the three calls can raise,
  and a missing key is a \<^verbatim>\<open>KeyError\<close>.
\<close>

definition get_pipeline_user_secret_pair ::
  "world \<Rightarrow> string \<Rightarrow> string option \<Rightarrow> string option \<Rightarrow> (exn + string \<times> string) \<times> event list" where
  "get_pipeline_user_secret_pair w secret_manager_arn profile region =
     (let region_name = (if truthy region then region else None);
          session = [Boto3Session profile region_name];
          client = session @ [SessionClient ''secretsmanager''];
          looked = client @ [GetSecretValue profile region_name secret_manager_arn]
      in case boto3_Session w profile region_name of
           Some e \<Rightarrow> (Inl e, session)
         | None \<Rightarrow>
      (case session_client w profile region_name ''secretsmanager'' of
           Some e \<Rightarrow> (Inl e, client)
         | None \<Rightarrow>
      (case get_secret_value w profile region_name secret_manager_arn of
           Inl e \<Rightarrow> (Inl e, looked)
         | Inr response \<Rightarrow>
            (case response ''SecretString'' of
               None \<Rightarrow> (Inl (KeyError ''SecretString''), looked)
             | Some secret_string \<Rightarrow>
                (case json_loads w secret_string of
                   Inl e \<Rightarrow> (Inl e, looked)
                 | Inr secret_json \<Rightarrow>
                    (case secret_json ''aws_access_key_id'' of
                       None \<Rightarrow> (Inl (KeyError ''aws_access_key_id''), looked)
                     | Some key_id \<Rightarrow>
                        (case secret_json ''aws_secret_access_key'' of
                           None \<Rightarrow> (Inl (KeyError ''aws_secret_access_key''), looked)
                         | Some secret_key \<Rightarrow> (Inr (key_id, secret_key), looked))))))))"

text \<open>
  The dictionary \<^verbatim>\<open>parameter_overrides\<close> that \<^verbatim>\<open>bootstrap\<close> passes to \<^verbatim>\<open>manage_stack\<close>, in
  the order of its keys.
\<close>

definition parameter_overrides :: "Environment \<Rightarrow> (string \<times> string) list" where
  "parameter_overrides self =
     [(''PipelineUserArn'', or_empty (arn (pipeline_user self))),
      (''PipelineExecutionRoleArn'', or_empty (arn (pipeline_execution_role self))),
      (''CloudFormationExecutionRoleArn'', or_empty (arn (cloudformation_execution_role self))),
      (''ArtifactsBucketArn'', or_empty (arn (artifacts_bucket self))),
      (''CreateImageRepository'', if create_image_repository self then ''true'' else ''false''),
      (''ImageRepositoryArn'', or_empty (arn (image_repository self)))]"

text \<open>
  \<^verbatim>\<open>bootstrap\<close> returns its result or the exception that leaves it, the environment as
  the call leaves it (the method updates \<^verbatim>\<open>self\<close> in place, so the assignments made
  before an exception stay), and the log of its calls. \<^verbatim>\<open>_read_template\<close> opens and reads
  the template file after the confirmation step; when that raises, the exception leaves
  \<^verbatim>\<open>bootstrap\<close> before \<^verbatim>\<open>manage_stack\<close> is called.
\<close>

definition bootstrap :: "world \<Rightarrow> Environment \<Rightarrow> bool \<Rightarrow> (exn + bool) \<times> Environment \<times> event list" where
  "bootstrap w self confirm_changeset =
     (if did_user_provide_all_required_resources self then
        (Inr True, self,
         [Secho Yellow ([CHR 0x0A] @ ''All required resources for the '' @ name self
            @ '' environment exist, skipping creation.'')])
      else
        let missing_resources_msg = get_non_user_provided_resources_msg self;
            shown = [Echo (''This will create the following required resources for the ''
              @ [CHR 0x27] @ name self @ [CHR 0x27] @ '' environment: '' @ [CHR 0x0A]
              @ missing_resources_msg)];
            asked = (if confirm_changeset then [Confirm ''Should we proceed with the creation?'']
              else [])
        in
        if confirm_changeset \<and> \<not> click_confirm w ''Should we proceed with the creation?'' then
          (Inr False, self, shown @ asked @ [Secho Red ''Canceling pipeline bootstrap creation.''])
        else
          case read_template w ENVIRONMENT_RESOURCES_CFN_TEMPLATE of
            Inl e \<Rightarrow>
              (Inl e, self, shown @ asked @ [ReadTemplate ENVIRONMENT_RESOURCES_CFN_TEMPLATE])
          | Inr environment_resources_template_body \<Rightarrow>
         (let called = [ReadTemplate ENVIRONMENT_RESOURCES_CFN_TEMPLATE,
                ManageStack (get_stack_name self) (aws_region self) (aws_profile self)
                  environment_resources_template_body (parameter_overrides self)]
          in
          case manage_stack w (get_stack_name self) (aws_region self) (aws_profile self)
                 environment_resources_template_body (parameter_overrides self) of
            Inl e \<Rightarrow> (Inl e, self, shown @ asked @ called)
          | Inr output \<Rightarrow>
             (let pipeline_user_secret_sm_id = output ''PipelineUserSecretKey'';
                  self1 = self\<lparr>pipeline_user := (pipeline_user self)\<lparr>arn := output ''PipelineUser''\<rparr>\<rparr>
              in
              case (case pipeline_user_secret_sm_id of
                      None \<Rightarrow> (Inr self1, [])
                    | Some secret_id \<Rightarrow>
                       if secret_id = [] then (Inr self1, [])
                       else
                         (case get_pipeline_user_secret_pair w secret_id
                                 (aws_profile self1) (aws_region self1) of
                            (Inl e, looked) \<Rightarrow> (Inl e, looked)
                          | (Inr (key_id, secret_key), looked) \<Rightarrow>
                             (Inr (self1\<lparr>pipeline_user := (pipeline_user self1)
                                \<lparr>access_key_id := Some key_id,
                                 secret_access_key := Some secret_key\<rparr>\<rparr>), looked))) of
                (Inl e, looked) \<Rightarrow> (Inl e, self1, shown @ asked @ called @ looked)
              | (Inr self2, looked) \<Rightarrow>
                 (Inr True,
                  self2\<lparr>pipeline_execution_role :=
                          (pipeline_execution_role self2)\<lparr>arn := output ''PipelineExecutionRole''\<rparr>,
                        cloudformation_execution_role :=
                          (cloudformation_execution_role self2)
                            \<lparr>arn := output ''CloudFormationExecutionRole''\<rparr>,
                        artifacts_bucket :=
                          (artifacts_bucket self2)\<lparr>arn := output ''ArtifactsBucket''\<rparr>,
                        image_repository :=
                          (image_repository self2)\<lparr>arn := output ''ImageRepository''\<rparr>\<rparr>,
                  shown @ asked @ called @ looked))))"

text \<open>The three parts of what \<^verbatim>\<open>bootstrap\<close> returns.\<close>

definition result_of :: "'r \<times> Environment \<times> event list \<Rightarrow> 'r" where
  "result_of x = fst x"

definition env_of :: "'r \<times> Environment \<times> event list \<Rightarrow> Environment" where
  "env_of x = fst (snd x)"

definition log_of :: "'r \<times> Environment \<times> event list \<Rightarrow> event list" where
  "log_of x = snd (snd x)"

subsection \<open>Saving the configuration\<close>

text \<open>
  \<^verbatim>\<open>try: v = f() except ValueError: v = ""\<close>: a \<^verbatim>\<open>ValueError\<close> gives the empty string,
  any other exception leaves \<^verbatim>\<open>save_config\<close>.
\<close>

definition except_ValueError :: "exn + string option \<Rightarrow> exn + string option" where
  "except_ValueError r =
     (case r of Inl (ValueError m) \<Rightarrow> Inr (Some []) | Inl e \<Rightarrow> Inl e | Inr v \<Rightarrow> Inr v)"

text \<open>
  The loop over \<^verbatim>\<open>environment_specific_configs.items()\<close>, in the order of the dictionary's
  keys: a value that is \<^verbatim>\<open>None\<close> or empty is skipped, any other is put under the
  environment's name. The value put is the string itself (\<open>or_empty\<close> of a non-empty
  value).
\<close>

fun put_environment_specific_configs ::
  "world \<Rightarrow> string list \<Rightarrow> string \<Rightarrow> (string \<times> string option) list \<Rightarrow> (exn + unit) \<times> event list" where
  "put_environment_specific_configs w cmd_names env [] = (Inr (), [])"
| "put_environment_specific_configs w cmd_names env ((key, v) # items) =
     (if truthy v then
        (case samconfig_put w cmd_names ''parameters'' key (or_empty v) (Some env) of
           Some e \<Rightarrow> (Inl e, [SamConfigPut cmd_names ''parameters'' key (or_empty v) (Some env)])
         | None \<Rightarrow>
            (case put_environment_specific_configs w cmd_names env items of
               (r, log) \<Rightarrow>
                 (r, SamConfigPut cmd_names ''parameters'' key (or_empty v) (Some env) # log)))
      else put_environment_specific_configs w cmd_names env items)"

definition save_config ::
  "world \<Rightarrow> Environment \<Rightarrow> string \<Rightarrow> string \<Rightarrow> string list \<Rightarrow> (exn + unit) \<times> event list" where
  "save_config w self config_dir filename cmd_names =
     (let created = [SamConfigNew config_dir filename] in
      case samconfig_new w config_dir filename of
        Some e \<Rightarrow> (Inl e, created)
      | None \<Rightarrow>
         (case (if truthy (arn (pipeline_user self)) then
                  (samconfig_put w cmd_names ''parameters'' PIPELINE_USER
                     (or_empty (arn (pipeline_user self))) None,
                   [SamConfigPut cmd_names ''parameters'' PIPELINE_USER
                     (or_empty (arn (pipeline_user self))) None])
                else (None, [])) of
            (Some e, user_put) \<Rightarrow> (Inl e, created @ user_put)
          | (None, user_put) \<Rightarrow>
             (case except_ValueError (resource_name w (artifacts_bucket self)) of
                Inl e \<Rightarrow> (Inl e, created @ user_put)
              | Inr artifacts_bucket_name \<Rightarrow>
                 (case except_ValueError (get_uri w (image_repository self)) of
                    Inl e \<Rightarrow> (Inl e, created @ user_put)
                  | Inr image_repository_uri \<Rightarrow>
                     (let environment_specific_configs =
                            [(PIPELINE_EXECUTION_ROLE, arn (pipeline_execution_role self)),
                             (CLOUDFORMATION_EXECUTION_ROLE,
                                arn (cloudformation_execution_role self)),
                             (ARTIFACTS_BUCKET, artifacts_bucket_name),
                             (ECR_IMAGE_REPOSITORY, image_repository_uri),
                             (REGION, aws_region self)]
                      in
                      case put_environment_specific_configs w cmd_names (name self)
                             environment_specific_configs of
                        (Inl e, env_puts) \<Rightarrow> (Inl e, created @ user_put @ env_puts)
                      | (Inr u, env_puts) \<Rightarrow>
                         (case samconfig_flush w of
                            Some e \<Rightarrow> (Inl e, created @ user_put @ env_puts @ [SamConfigFlush])
                          | None \<Rightarrow>
                             (Inr (), created @ user_put @ env_puts @ [SamConfigFlush])))))))"

text \<open>
  \<^verbatim>\<open>save_config_safe\<close>: \<^verbatim>\<open>try: self.save_config(...) except Exception: pass\<close>. The handler
  catches the classes derived from \<^verbatim>\<open>Exception\<close>; any other exception leaves the method.
\<close>

definition save_config_safe ::
  "world \<Rightarrow> Environment \<Rightarrow> string \<Rightarrow> string \<Rightarrow> string list \<Rightarrow> (exn + unit) \<times> event list" where
  "save_config_safe w self config_dir filename cmd_names =
     (case save_config w self config_dir filename cmd_names of
        (Inl e, log) \<Rightarrow> if is_Exception e then (Inr (), log) else (Inl e, log)
      | (Inr u, log) \<Rightarrow> (Inr u, log))"

subsection \<open>Example environments and collaborators\<close>

text \<open>An environment built with every ARN given and an image repository to create.\<close>

definition env_all_given :: Environment where
  "env_all_given =
     Environment_init ''Beta'' None (Some ''us-east-1'')
       (Some ''arn:aws:iam::123456789012:user/pipeline'')
       (Some ''arn:aws:iam::123456789012:role/pipeline-exec'')
       (Some ''arn:aws:iam::123456789012:role/cfn-exec'')
       (Some ''arn:aws:s3:::my-bucket'')
       True
       (Some ''arn:aws:ecr:us-east-1:123456789012:repository/my-repo'')"

text \<open>Environments built with no ARN, with the ARN of the image repository only, and with the ARN of
  the pipeline execution role only.\<close>

definition env_none_given :: Environment where
  "env_none_given = Environment_init ''Beta'' None (Some ''us-east-1'') None None None None False None"

definition env_repository_given :: Environment where
  "env_repository_given =
     Environment_init ''Beta'' None (Some ''us-east-1'') None None None None False
       (Some ''arn:aws:ecr:us-east-1:123456789012:repository/my-repo'')"

definition env_role_given :: Environment where
  "env_role_given =
     Environment_init ''Beta'' None (Some ''us-east-1'') None
       (Some ''arn:aws:iam::123456789012:role/pipeline-exec'') None None False None"

text \<open>
  Collaborators that accept everything: the user confirms, the backend creates the four
  required resources and a secret for the new pipeline user (no image repository), the
  secret holds a credential pair, and the configuration store takes every write.
\<close>

definition stack_output_created :: StackOutput where
  "stack_output_created =
     [''PipelineUser'' \<mapsto> ''arn:aws:iam::123456789012:user/new-user'',
      ''PipelineUserSecretKey'' \<mapsto> ''arn:aws:secretsmanager:us-east-1:123456789012:secret:new'',
      ''PipelineExecutionRole'' \<mapsto> ''arn:aws:iam::123456789012:role/new-pipeline-exec'',
      ''CloudFormationExecutionRole'' \<mapsto> ''arn:aws:iam::123456789012:role/new-cfn-exec'',
      ''ArtifactsBucket'' \<mapsto> ''arn:aws:s3:::new-bucket'']"

definition world_ok :: world where
  "world_ok =
     \<lparr>click_confirm = (\<lambda>prompt. True),
      read_template = (\<lambda>file. Inr ''Resources: {}''),
      manage_stack = (\<lambda>stack_name region profile body overrides. Inr stack_output_created),
      boto3_Session = (\<lambda>profile region. None),
      session_client = (\<lambda>profile region service. None),
      get_secret_value = (\<lambda>profile region secret_id. Inr [''SecretString'' \<mapsto> ''{}'']),
      json_loads = (\<lambda>s. Inr [''aws_access_key_id'' \<mapsto> ''AKIAEXAMPLE'',
                              ''aws_secret_access_key'' \<mapsto> ''wJalrEXAMPLEKEY'']),
      resource_name = (\<lambda>r. Inr (Some ''new-bucket'')),
      get_uri = (\<lambda>r. Inr None),
      samconfig_new = (\<lambda>config_dir filename. None),
      samconfig_put = (\<lambda>cmd_names sect key v env. None),
      samconfig_flush = None\<rparr>"

text \<open>
  The user declines; the template file is missing; the backend reports an empty secret
  reference; the profile of the session is not found; the secrets manager refuses the
  lookup.
\<close>

definition world_declined :: world where
  "world_declined = world_ok\<lparr>click_confirm := (\<lambda>prompt. False)\<rparr>"

definition world_template_missing :: world where
  "world_template_missing =
     world_ok\<lparr>read_template := (\<lambda>file. Inl (Exception ''FileNotFoundError''))\<rparr>"

definition world_profile_missing :: world where
  "world_profile_missing =
     world_ok\<lparr>boto3_Session := (\<lambda>profile region. Some (Exception ''ProfileNotFound''))\<rparr>"

definition world_empty_secret_key :: world where
  "world_empty_secret_key =
     world_ok\<lparr>manage_stack := (\<lambda>stack_name region profile body overrides.
       Inr (stack_output_created(''PipelineUserSecretKey'' \<mapsto> [])))\<rparr>"

definition world_secret_denied :: world where
  "world_secret_denied =
     world_ok\<lparr>get_secret_value := (\<lambda>profile region secret_id.
       Inl (Exception ''AccessDeniedException''))\<rparr>"


text \<open>
  Collaborators as \<open>world_ok\<close>, but the bucket name cannot be derived, the repository URI
  cannot be derived, the configuration store fails to write, or the user interrupts the
  writing of the file.
\<close>

definition world_bad_bucket :: world where
  "world_bad_bucket = world_ok\<lparr>resource_name := (\<lambda>r. Inl (ValueError ''Invalid ARN''))\<rparr>"

definition world_bad_repository :: world where
  "world_bad_repository = world_ok\<lparr>get_uri := (\<lambda>r. Inl (ValueError ''Invalid ECR ARN''))\<rparr>"

definition world_store_fails :: world where
  "world_store_fails = world_ok\<lparr>samconfig_flush := Some (Exception ''cannot write'')\<rparr>"

definition world_interrupted :: world where
  "world_interrupted = world_ok\<lparr>samconfig_flush := Some KeyboardInterrupt\<rparr>"

section \<open>Completeness of the user-provided resources\<close>

lemma is_user_provided_truncate:
  "is_user_provided (Resource.truncate r) = is_user_provided r"
  by (simp add: Resource.truncate_def)

text \<open>
  C1. \<^verbatim>\<open>did_user_provide_all_required_resources()\<close> is true exactly when every
  participating descriptor is user-provided: the pipeline user, the pipeline
  execution role, the CloudFormation execution role and the artifacts bucket
  always participate, the image repository only when \<^verbatim>\<open>create_image_repository\<close> is
  true or its ARN is set.
\<close>

theorem did_user_provide_all_required_resources_iff:
  "did_user_provide_all_required_resources self \<longleftrightarrow>
     is_user_provided (pipeline_user self) \<and>
     is_user_provided (pipeline_execution_role self) \<and>
     is_user_provided (cloudformation_execution_role self) \<and>
     is_user_provided (artifacts_bucket self) \<and>
     ((create_image_repository self \<or> truthy (arn (image_repository self)))
        \<longrightarrow> is_user_provided (image_repository self))"
  by (auto simp: did_user_provide_all_required_resources_def get_resources_def
      is_user_provided_truncate)

theorem did_user_provide_all_required_resources_iff_witness:
  "did_user_provide_all_required_resources env_all_given \<and>
   create_image_repository env_all_given \<and>
   is_user_provided (image_repository env_all_given)"
  using did_user_provide_all_required_resources_iff [of env_all_given]
  by (simp add: env_all_given_def Environment_init_def Resource_init_def IAMUser_init_def
      truthy_def)

section \<open>The name of the stack\<close>

text \<open>The runs are a partition of the string into maximal blocks of one kind.\<close>

lemma concat_runs: "concat (runs P s) = s"
  by (induction s) (auto split: list.splits)

lemma runs_Cons_hd: "\<exists>r rs. runs P (c # cs) = (c # r) # rs"
  by (auto split: list.splits)

lemma runs_homogeneous: "r \<in> set (runs P s) \<Longrightarrow> x \<in> set r \<Longrightarrow> P x = P (hd r)"
proof (induction s arbitrary: r x)
  case Nil
  then show ?case by simp
next
  case (Cons c cs)
  show ?case
  proof (cases "runs P cs")
    case Nil
    with Cons.prems show ?thesis by simp
  next
    case (Cons q qs)
    have q: "\<And>y. y \<in> set q \<Longrightarrow> P y = P (hd q)"
      using Cons.IH [of q] Cons by simp
    have rest: "\<And>r y. r \<in> set qs \<Longrightarrow> y \<in> set r \<Longrightarrow> P y = P (hd r)"
      using Cons.IH Cons by simp
    from Cons.prems Cons
    have "r = c # q \<and> P c = P (hd q) \<or> r = [c] \<or> r = q \<or> r \<in> set qs"
      by (auto split: if_splits)
    then show ?thesis
      using q rest Cons.prems(2) by (elim disjE conjE) auto
  qed
qed

lemma runs_alternating: "alternating P (runs P s)"
proof (induction s)
  case Nil
  show ?case by simp
next
  case (Cons c cs)
  then show ?case
    by (cases "runs P cs"; cases "tl (runs P cs)") auto
qed

text \<open>The scan of the regular expression engine computes the collapsed runs.\<close>

lemma collapse_runs_Nil: "collapse_runs [] = []"
  by (simp add: collapse_runs_def)

lemma collapse_runs_alnum: "alnum c \<Longrightarrow> collapse_runs (c # cs) = c # collapse_runs cs"
  by (auto simp: collapse_runs_def split: list.splits)

lemma collapse_runs_non_alnum:
  "\<not> alnum c \<Longrightarrow>
     collapse_runs (c # cs) = CHR ''-'' # collapse_runs (dropWhile (\<lambda>x. \<not> alnum x) cs)"
proof (induction cs arbitrary: c)
  case Nil
  then show ?case by (simp add: collapse_runs_def)
next
  case (Cons d ds)
  obtain r rs where drs: "runs alnum (d # ds) = (d # r) # rs"
    using runs_Cons_hd [of alnum d ds] by blast
  show ?case
  proof (cases "alnum d")
    case True
    with Cons.prems drs show ?thesis
      by (simp add: collapse_runs_def del: runs.simps(2)) (simp add: drs)
  next
    case False
    have "collapse_runs (c # d # ds) = collapse_runs (d # ds)"
      using Cons.prems False drs by (simp add: collapse_runs_def)
    also have "\<dots> = CHR ''-'' # collapse_runs (dropWhile (\<lambda>x. \<not> alnum x) ds)"
      using False by (rule Cons.IH)
    finally show ?thesis using False by simp
  qed
qed

lemma re_sub_non_alnum_collapse_runs: "re_sub_non_alnum s = collapse_runs s"
  by (induction s rule: re_sub_non_alnum.induct)
     (simp_all add: collapse_runs_alnum collapse_runs_non_alnum collapse_runs_Nil)

section \<open>Bootstrapping\<close>

lemmas example_defs =
  env_all_given_def env_none_given_def env_repository_given_def env_role_given_def
  Environment_init_def Resource_init_def IAMUser_init_def truthy_def or_empty_def
  stack_output_created_def world_ok_def world_declined_def world_empty_secret_key_def
  world_secret_denied_def world_template_missing_def world_profile_missing_def

lemma did_user_provide_all_required_resources_examples:
  "did_user_provide_all_required_resources env_all_given"
  "\<not> did_user_provide_all_required_resources env_none_given"
  "\<not> did_user_provide_all_required_resources env_repository_given"
  "\<not> did_user_provide_all_required_resources env_role_given"
  by (simp_all add: did_user_provide_all_required_resources_def get_resources_def
      is_user_provided_truncate example_defs)

text \<open>
  The secret lookup: the call \<^verbatim>\<open>get_secret_value\<close> is made once when the session and its
  client are created, and not at all otherwise; the provisioning backend is not called.
\<close>

lemma secret_pair_lookups:
  "secret_lookups (snd (get_pipeline_user_secret_pair w sid p r)) =
     (if boto3_Session w p (if truthy r then r else None) = None \<and>
         session_client w p (if truthy r then r else None) ''secretsmanager'' = None
      then [GetSecretValue p (if truthy r then r else None) sid] else [])"
  by (cases "truthy r")
     (simp_all add: get_pipeline_user_secret_pair_def Let_def secret_lookups_def
        split: sum.split option.split)

lemma secret_pair_no_provisioning:
  "provisioning_calls (snd (get_pipeline_user_secret_pair w sid p r)) = []"
  by (cases "truthy r")
     (simp_all add: get_pipeline_user_secret_pair_def Let_def provisioning_calls_def
        split: sum.split option.split)

lemma secret_pair_returns:
  assumes "fst (get_pipeline_user_secret_pair w sid p r) = Inr pair"
  shows "boto3_Session w p (if truthy r then r else None) = None"
    and "session_client w p (if truthy r then r else None) ''secretsmanager'' = None"
  using assms
  by (cases "truthy r";
      cases "boto3_Session w p (if truthy r then r else None)";
      cases "session_client w p (if truthy r then r else None) ''secretsmanager''";
      simp add: get_pipeline_user_secret_pair_def Let_def)+

lemma secret_pair_session_raises:
  assumes "boto3_Session w p (if truthy r then r else None) = Some e"
  shows "fst (get_pipeline_user_secret_pair w sid p r) = Inl e"
  using assms by (cases "truthy r") (simp_all add: get_pipeline_user_secret_pair_def Let_def)

lemma secret_pair_client_raises:
  assumes "boto3_Session w p (if truthy r then r else None) = None"
    and "session_client w p (if truthy r then r else None) ''secretsmanager'' = Some e"
  shows "fst (get_pipeline_user_secret_pair w sid p r) = Inl e"
  using assms by (cases "truthy r") (simp_all add: get_pipeline_user_secret_pair_def Let_def)

lemma secret_pair_found:
  assumes "boto3_Session w p (if truthy r then r else None) = None"
    and "session_client w p (if truthy r then r else None) ''secretsmanager'' = None"
    and "get_secret_value w p (if truthy r then r else None) sid = Inr response"
    and "response ''SecretString'' = Some secret_string"
    and "json_loads w secret_string = Inr secret_json"
    and "secret_json ''aws_access_key_id'' = Some key_id"
    and "secret_json ''aws_secret_access_key'' = Some secret_key"
  shows "fst (get_pipeline_user_secret_pair w sid p r) = Inr (key_id, secret_key)"
  using assms by (cases "truthy r") (simp_all add: get_pipeline_user_secret_pair_def Let_def)

lemma secret_pair_cases:
  obtains e where "fst (get_pipeline_user_secret_pair w sid p r) = Inl e"
  | key_id secret_key where "fst (get_pipeline_user_secret_pair w sid p r) = Inr (key_id, secret_key)"
  by (cases "fst (get_pipeline_user_secret_pair w sid p r)") auto

text \<open>The outcomes of \<^verbatim>\<open>bootstrap\<close> on each of its paths.\<close>

lemma bootstrap_all_provided:
  "did_user_provide_all_required_resources self \<Longrightarrow>
     bootstrap w self c =
       (Inr True, self,
        [Secho Yellow ([CHR 0x0A] @ ''All required resources for the '' @ name self
           @ '' environment exist, skipping creation.'')])"
  by (simp add: bootstrap_def)

lemma bootstrap_declined:
  "\<not> did_user_provide_all_required_resources self \<Longrightarrow>
   \<not> click_confirm w ''Should we proceed with the creation?'' \<Longrightarrow>
     bootstrap w self True =
       (Inr False, self,
        [Echo (''This will create the following required resources for the ''
              @ [CHR 0x27] @ name self @ [CHR 0x27] @ '' environment: '' @ [CHR 0x0A]
              @ get_non_user_provided_resources_msg self),
         Confirm ''Should we proceed with the creation?'',
         Secho Red ''Canceling pipeline bootstrap creation.''])"
  by (simp add: bootstrap_def Let_def)

text \<open>The five ways through the deployment.\<close>

lemma bootstrap_template_raises:
  assumes "\<not> did_user_provide_all_required_resources self"
    and "c \<longrightarrow> click_confirm w ''Should we proceed with the creation?''"
    and "read_template w ENVIRONMENT_RESOURCES_CFN_TEMPLATE = Inl e"
  shows "result_of (bootstrap w self c) = Inl e"
    and "env_of (bootstrap w self c) = self"
    and "provisioning_calls (log_of (bootstrap w self c)) = []"
    and "secret_lookups (log_of (bootstrap w self c)) = []"
  using assms
  by (cases c; simp add: bootstrap_def Let_def result_of_def env_of_def log_of_def
      provisioning_calls_def secret_lookups_def)+

lemma bootstrap_backend_raises:
  assumes "\<not> did_user_provide_all_required_resources self"
    and "c \<longrightarrow> click_confirm w ''Should we proceed with the creation?''"
    and "read_template w ENVIRONMENT_RESOURCES_CFN_TEMPLATE = Inr body"
    and "manage_stack w (get_stack_name self) (aws_region self) (aws_profile self)
        body (parameter_overrides self) = Inl e"
  shows "result_of (bootstrap w self c) = Inl e"
    and "env_of (bootstrap w self c) = self"
    and "provisioning_calls (log_of (bootstrap w self c)) =
       [ManageStack (get_stack_name self) (aws_region self) (aws_profile self)
        body (parameter_overrides self)]"
    and "secret_lookups (log_of (bootstrap w self c)) = []"
  using assms
  by (cases c; simp add: bootstrap_def Let_def result_of_def env_of_def log_of_def
      provisioning_calls_def secret_lookups_def)+

lemma bootstrap_without_secret:
  assumes "\<not> did_user_provide_all_required_resources self"
    and "c \<longrightarrow> click_confirm w ''Should we proceed with the creation?''"
    and "read_template w ENVIRONMENT_RESOURCES_CFN_TEMPLATE = Inr body"
    and "manage_stack w (get_stack_name self) (aws_region self) (aws_profile self)
        body (parameter_overrides self) = Inr output"
    and "\<not> truthy (output ''PipelineUserSecretKey'')"
  shows "result_of (bootstrap w self c) = Inr True"
    and "env_of (bootstrap w self c) =
      self\<lparr>pipeline_user := (pipeline_user self)\<lparr>arn := output ''PipelineUser''\<rparr>,
           pipeline_execution_role :=
             (pipeline_execution_role self)\<lparr>arn := output ''PipelineExecutionRole''\<rparr>,
           cloudformation_execution_role :=
             (cloudformation_execution_role self)\<lparr>arn := output ''CloudFormationExecutionRole''\<rparr>,
           artifacts_bucket := (artifacts_bucket self)\<lparr>arn := output ''ArtifactsBucket''\<rparr>,
           image_repository := (image_repository self)\<lparr>arn := output ''ImageRepository''\<rparr>\<rparr>"
    and "provisioning_calls (log_of (bootstrap w self c)) =
       [ManageStack (get_stack_name self) (aws_region self) (aws_profile self)
        body (parameter_overrides self)]"
    and "secret_lookups (log_of (bootstrap w self c)) = []"
  using assms
  by (cases c; cases "output ''PipelineUserSecretKey''";
      simp add: bootstrap_def Let_def result_of_def env_of_def log_of_def
      provisioning_calls_def secret_lookups_def truthy_def)+

lemma bootstrap_secret_raises:
  assumes "\<not> did_user_provide_all_required_resources self"
    and "c \<longrightarrow> click_confirm w ''Should we proceed with the creation?''"
    and "read_template w ENVIRONMENT_RESOURCES_CFN_TEMPLATE = Inr body"
    and "manage_stack w (get_stack_name self) (aws_region self) (aws_profile self)
        body (parameter_overrides self) = Inr output"
    and "output ''PipelineUserSecretKey'' = Some secret_id" and "secret_id \<noteq> []"
    and "fst (get_pipeline_user_secret_pair w secret_id (aws_profile self) (aws_region self)) = Inl e"
  shows "result_of (bootstrap w self c) = Inl e"
    and "env_of (bootstrap w self c) =
      self\<lparr>pipeline_user := (pipeline_user self)\<lparr>arn := output ''PipelineUser''\<rparr>\<rparr>"
    and "provisioning_calls (log_of (bootstrap w self c)) =
       [ManageStack (get_stack_name self) (aws_region self) (aws_profile self)
        body (parameter_overrides self)]"
    and "secret_lookups (log_of (bootstrap w self c)) =
       secret_lookups
         (snd (get_pipeline_user_secret_pair w secret_id (aws_profile self) (aws_region self)))"
proof -
  obtain looked where pair:
    "get_pipeline_user_secret_pair w secret_id (aws_profile self) (aws_region self) = (Inl e, looked)"
    using assms(7)
    by (cases "get_pipeline_user_secret_pair w secret_id (aws_profile self) (aws_region self)") simp
  have quiet: "filter is_manage_stack looked = []"
    using secret_pair_no_provisioning [of w secret_id "aws_profile self" "aws_region self"]
    by (simp add: pair provisioning_calls_def)
  show "result_of (bootstrap w self c) = Inl e"
    and "env_of (bootstrap w self c) =
      self\<lparr>pipeline_user := (pipeline_user self)\<lparr>arn := output ''PipelineUser''\<rparr>\<rparr>"
    and "provisioning_calls (log_of (bootstrap w self c)) =
       [ManageStack (get_stack_name self) (aws_region self) (aws_profile self)
        body (parameter_overrides self)]"
    and "secret_lookups (log_of (bootstrap w self c)) =
       secret_lookups
         (snd (get_pipeline_user_secret_pair w secret_id (aws_profile self) (aws_region self)))"
    using assms(1-6) pair quiet
    by (cases c; simp add: bootstrap_def Let_def result_of_def env_of_def log_of_def
      provisioning_calls_def secret_lookups_def)+
qed

lemma bootstrap_with_secret:
  assumes "\<not> did_user_provide_all_required_resources self"
    and "c \<longrightarrow> click_confirm w ''Should we proceed with the creation?''"
    and "read_template w ENVIRONMENT_RESOURCES_CFN_TEMPLATE = Inr body"
    and "manage_stack w (get_stack_name self) (aws_region self) (aws_profile self)
        body (parameter_overrides self) = Inr output"
    and "output ''PipelineUserSecretKey'' = Some secret_id" and "secret_id \<noteq> []"
    and "fst (get_pipeline_user_secret_pair w secret_id (aws_profile self) (aws_region self))
           = Inr (key_id, secret_key)"
  shows "result_of (bootstrap w self c) = Inr True"
    and "env_of (bootstrap w self c) =
      self\<lparr>pipeline_user := (pipeline_user self)
             \<lparr>arn := output ''PipelineUser'', access_key_id := Some key_id,
              secret_access_key := Some secret_key\<rparr>,
           pipeline_execution_role :=
             (pipeline_execution_role self)\<lparr>arn := output ''PipelineExecutionRole''\<rparr>,
           cloudformation_execution_role :=
             (cloudformation_execution_role self)\<lparr>arn := output ''CloudFormationExecutionRole''\<rparr>,
           artifacts_bucket := (artifacts_bucket self)\<lparr>arn := output ''ArtifactsBucket''\<rparr>,
           image_repository := (image_repository self)\<lparr>arn := output ''ImageRepository''\<rparr>\<rparr>"
    and "provisioning_calls (log_of (bootstrap w self c)) =
       [ManageStack (get_stack_name self) (aws_region self) (aws_profile self)
        body (parameter_overrides self)]"
    and "secret_lookups (log_of (bootstrap w self c)) =
       [GetSecretValue (aws_profile self) (if truthy (aws_region self) then aws_region self else None)
          secret_id]"
proof -
  obtain looked where pair:
    "get_pipeline_user_secret_pair w secret_id (aws_profile self) (aws_region self)
       = (Inr (key_id, secret_key), looked)"
    using assms(7)
    by (cases "get_pipeline_user_secret_pair w secret_id (aws_profile self) (aws_region self)") simp
  have quiet: "filter is_manage_stack looked = []"
    using secret_pair_no_provisioning [of w secret_id "aws_profile self" "aws_region self"]
    by (simp add: pair provisioning_calls_def)
  have once: "filter is_get_secret_value looked =
       [GetSecretValue (aws_profile self) (if truthy (aws_region self) then aws_region self else None)
          secret_id]"
    using secret_pair_lookups [of w secret_id "aws_profile self" "aws_region self"]
      secret_pair_returns [OF assms(7)]
    by (simp add: pair secret_lookups_def)
  show "result_of (bootstrap w self c) = Inr True"
    and "env_of (bootstrap w self c) =
      self\<lparr>pipeline_user := (pipeline_user self)
             \<lparr>arn := output ''PipelineUser'', access_key_id := Some key_id,
              secret_access_key := Some secret_key\<rparr>,
           pipeline_execution_role :=
             (pipeline_execution_role self)\<lparr>arn := output ''PipelineExecutionRole''\<rparr>,
           cloudformation_execution_role :=
             (cloudformation_execution_role self)\<lparr>arn := output ''CloudFormationExecutionRole''\<rparr>,
           artifacts_bucket := (artifacts_bucket self)\<lparr>arn := output ''ArtifactsBucket''\<rparr>,
           image_repository := (image_repository self)\<lparr>arn := output ''ImageRepository''\<rparr>\<rparr>"
    and "provisioning_calls (log_of (bootstrap w self c)) =
       [ManageStack (get_stack_name self) (aws_region self) (aws_profile self)
        body (parameter_overrides self)]"
    and "secret_lookups (log_of (bootstrap w self c)) =
       [GetSecretValue (aws_profile self) (if truthy (aws_region self) then aws_region self else None)
          secret_id]"
    using assms(1-6) pair quiet once
    by (cases c; simp add: bootstrap_def Let_def result_of_def env_of_def log_of_def
      provisioning_calls_def secret_lookups_def)+
qed

text \<open>
  The environments a call can leave: \<^verbatim>\<open>bootstrap\<close> assigns ARNs and the credential pair
  only, so the flags \<^verbatim>\<open>is_user_provided\<close> stay as they were set at construction.
\<close>

lemma bootstrap_env_cases:
  obtains (unchanged) "env_of (bootstrap w self c) = self"
  | (user) outp where "env_of (bootstrap w self c) =
        self\<lparr>pipeline_user := (pipeline_user self)\<lparr>arn := outp ''PipelineUser''\<rparr>\<rparr>"
  | (captured) outp where "env_of (bootstrap w self c) =
      self\<lparr>pipeline_user := (pipeline_user self)\<lparr>arn := outp ''PipelineUser''\<rparr>,
           pipeline_execution_role :=
             (pipeline_execution_role self)\<lparr>arn := outp ''PipelineExecutionRole''\<rparr>,
           cloudformation_execution_role :=
             (cloudformation_execution_role self)\<lparr>arn := outp ''CloudFormationExecutionRole''\<rparr>,
           artifacts_bucket := (artifacts_bucket self)\<lparr>arn := outp ''ArtifactsBucket''\<rparr>,
           image_repository := (image_repository self)\<lparr>arn := outp ''ImageRepository''\<rparr>\<rparr>"
  | (credentials) outp key_id secret_key where "env_of (bootstrap w self c) =
      self\<lparr>pipeline_user := (pipeline_user self)
             \<lparr>arn := outp ''PipelineUser'', access_key_id := Some key_id,
              secret_access_key := Some secret_key\<rparr>,
           pipeline_execution_role :=
             (pipeline_execution_role self)\<lparr>arn := outp ''PipelineExecutionRole''\<rparr>,
           cloudformation_execution_role :=
             (cloudformation_execution_role self)\<lparr>arn := outp ''CloudFormationExecutionRole''\<rparr>,
           artifacts_bucket := (artifacts_bucket self)\<lparr>arn := outp ''ArtifactsBucket''\<rparr>,
           image_repository := (image_repository self)\<lparr>arn := outp ''ImageRepository''\<rparr>\<rparr>"
proof (cases "did_user_provide_all_required_resources self")
  case True
  then have "env_of (bootstrap w self c) = self"
    by (simp add: bootstrap_all_provided env_of_def)
  then show ?thesis by (rule unchanged)
next
  case False
  note missing = this
  show ?thesis
  proof (cases "c \<longrightarrow> click_confirm w ''Should we proceed with the creation?''")
    case False
    then have "c = True" "\<not> click_confirm w ''Should we proceed with the creation?''"
      by simp_all
    with missing have "env_of (bootstrap w self c) = self"
      by (simp add: bootstrap_declined env_of_def)
    then show ?thesis by (rule unchanged)
  next
    case True
    note go = this
    show ?thesis
    proof (cases "read_template w ENVIRONMENT_RESOURCES_CFN_TEMPLATE")
      case (Inl e)
      with missing go have "env_of (bootstrap w self c) = self"
        by (rule bootstrap_template_raises(2))
      then show ?thesis by (rule unchanged)
    next
      case (Inr body)
      note read = this
      show ?thesis
      proof (cases "manage_stack w (get_stack_name self) (aws_region self) (aws_profile self)
          body (parameter_overrides self)")
        case (Inl e)
        with missing go read have "env_of (bootstrap w self c) = self"
          by (rule bootstrap_backend_raises(2))
        then show ?thesis by (rule unchanged)
      next
        case (Inr outp)
        show ?thesis
        proof (cases "truthy (outp ''PipelineUserSecretKey'')")
          case False
          with missing go read Inr show ?thesis
            by (rule captured [OF bootstrap_without_secret(2)])
        next
          case True
          then obtain secret_id where
            sid: "outp ''PipelineUserSecretKey'' = Some secret_id" "secret_id \<noteq> []"
            by (auto simp: truthy_def split: option.splits)
          show ?thesis
          proof (cases rule: secret_pair_cases [of w secret_id "aws_profile self" "aws_region self"])
            case (1 e)
            with missing go read Inr sid show ?thesis
              by (rule user [OF bootstrap_secret_raises(2)])
          next
            case (2 key_id secret_key)
            with missing go read Inr sid show ?thesis
              by (rule credentials [OF bootstrap_with_secret(2)])
          qed
        qed
      qed
    qed
  qed
qed

lemma bootstrap_keeps_is_user_provided:
  "is_user_provided (pipeline_user (env_of (bootstrap w self c)))
     = is_user_provided (pipeline_user self)"
  "is_user_provided (pipeline_execution_role (env_of (bootstrap w self c)))
     = is_user_provided (pipeline_execution_role self)"
  "is_user_provided (cloudformation_execution_role (env_of (bootstrap w self c)))
     = is_user_provided (cloudformation_execution_role self)"
  "is_user_provided (artifacts_bucket (env_of (bootstrap w self c)))
     = is_user_provided (artifacts_bucket self)"
  "is_user_provided (image_repository (env_of (bootstrap w self c)))
     = is_user_provided (image_repository self)"
  "create_image_repository (env_of (bootstrap w self c)) = create_image_repository self"
  by (cases rule: bootstrap_env_cases [of w self c]; simp)+

lemma bootstrap_keeps_name:
  "name (env_of (bootstrap w self c)) = name self"
  "aws_profile (env_of (bootstrap w self c)) = aws_profile self"
  "aws_region (env_of (bootstrap w self c)) = aws_region self"
  by (cases rule: bootstrap_env_cases [of w self c]; simp)+

lemma bootstrap_never_provides:
  assumes "truthy (arn (image_repository self)) \<longrightarrow> is_user_provided (image_repository self)"
    and "\<not> did_user_provide_all_required_resources self"
  shows "\<not> did_user_provide_all_required_resources (env_of (bootstrap w self c))"
proof
  let ?after = "env_of (bootstrap w self c)"
  have all: "did_user_provide_all_required_resources s \<longleftrightarrow>
      is_user_provided (pipeline_user s) \<and> is_user_provided (pipeline_execution_role s) \<and>
      is_user_provided (cloudformation_execution_role s) \<and>
      is_user_provided (artifacts_bucket s) \<and>
      ((create_image_repository s \<or> truthy (arn (image_repository s)))
         \<longrightarrow> is_user_provided (image_repository s))" for s
    by (auto simp: did_user_provide_all_required_resources_def get_resources_def
        is_user_provided_truncate)
  assume "did_user_provide_all_required_resources ?after"
  then have "is_user_provided (pipeline_user self) \<and>
      is_user_provided (pipeline_execution_role self) \<and>
      is_user_provided (cloudformation_execution_role self) \<and>
      is_user_provided (artifacts_bucket self) \<and>
      (create_image_repository self \<longrightarrow> is_user_provided (image_repository self))"
    unfolding all [of ?after] bootstrap_keeps_is_user_provided by blast
  with assms(1) have "did_user_provide_all_required_resources self"
    unfolding all [of self] by blast
  with assms(2) show False by contradiction
qed

text \<open>
  Past the confirmation step and the reading of the template, whichever way the
  deployment goes, the provisioning backend is called once, with the stack name of the
  environment and its parameter overrides; in every run, a call to the backend carries
  that stack name.
\<close>

lemma bootstrap_deploy_calls:
  assumes "\<not> did_user_provide_all_required_resources self"
    and "c \<longrightarrow> click_confirm w ''Should we proceed with the creation?''"
    and "read_template w ENVIRONMENT_RESOURCES_CFN_TEMPLATE = Inr body"
  shows "provisioning_calls (log_of (bootstrap w self c)) =
       [ManageStack (get_stack_name self) (aws_region self) (aws_profile self)
        body (parameter_overrides self)]"
proof (cases "manage_stack w (get_stack_name self) (aws_region self) (aws_profile self)
        body (parameter_overrides self)")
  case (Inl e)
  with assms show ?thesis by (rule bootstrap_backend_raises(3))
next
  case (Inr outp)
  show ?thesis
  proof (cases "truthy (outp ''PipelineUserSecretKey'')")
    case False
    with assms Inr show ?thesis by (rule bootstrap_without_secret(3))
  next
    case True
    then obtain secret_id where sid: "outp ''PipelineUserSecretKey'' = Some secret_id" "secret_id \<noteq> []"
      by (auto simp: truthy_def split: option.splits)
    show ?thesis
    proof (cases rule: secret_pair_cases [of w secret_id "aws_profile self" "aws_region self"])
      case (1 e)
      with assms Inr sid show ?thesis by (rule bootstrap_secret_raises(3))
    next
      case (2 key_id secret_key)
      with assms Inr sid show ?thesis by (rule bootstrap_with_secret(3))
    qed
  qed
qed

lemma bootstrap_calls_carry_stack_name:
  assumes "ManageStack stack_name region profile body overrides \<in> set (log_of (bootstrap w self c))"
  shows "stack_name = get_stack_name self"
proof -
  from assms have called: "ManageStack stack_name region profile body overrides
      \<in> set (provisioning_calls (log_of (bootstrap w self c)))"
    by (simp add: provisioning_calls_def)
  show ?thesis
  proof (cases "did_user_provide_all_required_resources self")
    case True
    with called show ?thesis
      by (simp add: bootstrap_all_provided log_of_def provisioning_calls_def)
  next
    case False
    note missing = this
    show ?thesis
    proof (cases "c \<longrightarrow> click_confirm w ''Should we proceed with the creation?''")
      case False
      then have "c = True" "\<not> click_confirm w ''Should we proceed with the creation?''"
        by simp_all
      with missing called show ?thesis
        by (simp add: bootstrap_declined log_of_def provisioning_calls_def)
    next
      case True
      note go = this
      show ?thesis
      proof (cases "read_template w ENVIRONMENT_RESOURCES_CFN_TEMPLATE")
        case (Inl e)
        with called bootstrap_template_raises(3) [OF missing go Inl] show ?thesis by simp
      next
        case (Inr read)
        with called bootstrap_deploy_calls [OF missing go Inr] show ?thesis by simp
      qed
    qed
  qed
qed

text \<open>What the example collaborators answer.\<close>

lemma read_template_examples:
  "read_template world_ok f = Inr ''Resources: {}''"
  "read_template world_secret_denied f = Inr ''Resources: {}''"
  "read_template world_empty_secret_key f = Inr ''Resources: {}''"
  "read_template world_profile_missing f = Inr ''Resources: {}''"
  "read_template world_template_missing f = Inl (Exception ''FileNotFoundError'')"
  by (simp_all add: world_ok_def world_secret_denied_def world_empty_secret_key_def
      world_profile_missing_def world_template_missing_def)

lemma manage_stack_examples:
  "manage_stack world_ok sn r p b ps = Inr stack_output_created"
  "manage_stack world_secret_denied sn r p b ps = Inr stack_output_created"
  "manage_stack world_empty_secret_key sn r p b ps
     = Inr (stack_output_created(''PipelineUserSecretKey'' \<mapsto> []))"
  "manage_stack world_profile_missing sn r p b ps = Inr stack_output_created"
  by (simp_all add: world_ok_def world_secret_denied_def world_empty_secret_key_def
      world_profile_missing_def)

lemma secret_key_example:
  "stack_output_created ''PipelineUserSecretKey''
      = Some ''arn:aws:secretsmanager:us-east-1:123456789012:secret:new''"
  "''arn:aws:secretsmanager:us-east-1:123456789012:secret:new'' \<noteq> []"
  by (simp_all add: stack_output_created_def)

lemma secret_pair_example:
  "fst (get_pipeline_user_secret_pair world_ok secret_id p r)
     = Inr (''AKIAEXAMPLE'', ''wJalrEXAMPLEKEY'')"
  by (cases "truthy r") (simp_all add: get_pipeline_user_secret_pair_def Let_def world_ok_def)

lemma secret_pair_denied:
  "fst (get_pipeline_user_secret_pair world_secret_denied secret_id p r)
     = Inl (Exception ''AccessDeniedException'')"
  by (cases "truthy r")
     (simp_all add: get_pipeline_user_secret_pair_def Let_def world_secret_denied_def world_ok_def)

lemma session_examples:
  "boto3_Session world_ok p r = None"
  "session_client world_ok p r s = None"
  "boto3_Session world_secret_denied p r = None"
  "session_client world_secret_denied p r s = None"
  "boto3_Session world_profile_missing p r = Some (Exception ''ProfileNotFound'')"
  by (simp_all add: world_ok_def world_secret_denied_def world_profile_missing_def)

lemma stack_name_example:
  "get_stack_name env_none_given = ''aws-sam-cli-managed-Beta-pipeline-resources''"
  "get_stack_name env_role_given = ''aws-sam-cli-managed-Beta-pipeline-resources''"
  by (simp_all add: get_stack_name_def env_none_given_def env_role_given_def Environment_init_def
      alnum_def STACK_NAME_PREFIX_def ENVIRONMENT_RESOURCES_STACK_NAME_SUFFIX_def)

text \<open>
  C2 (amended). When all required resources are user-provided, \<^verbatim>\<open>bootstrap\<close> returns true,
  leaves the environment as it is and calls neither the provisioning backend nor the
  secrets manager, whatever the confirmation flag; a second call on the environment it
  left does the same. A call that provisions does not make the resources
  user-provided: where the image repository's flag agrees with its ARN, as the
  constructor sets it, an environment with a missing resource still has one after the
  call, and a second call that passes the confirmation step and reads the template
  calls the provisioning backend again, with the ARNs the first call captured.
\<close>

theorem bootstrap_all_provided_noop:
  "(did_user_provide_all_required_resources self \<longrightarrow>
      result_of (bootstrap w self c) = Inr True \<and>
      env_of (bootstrap w self c) = self \<and>
      provisioning_calls (log_of (bootstrap w self c)) = [] \<and>
      secret_lookups (log_of (bootstrap w self c)) = [] \<and>
      result_of (bootstrap w (env_of (bootstrap w self c)) c) = Inr True \<and>
      env_of (bootstrap w (env_of (bootstrap w self c)) c) = self \<and>
      provisioning_calls (log_of (bootstrap w (env_of (bootstrap w self c)) c)) = [] \<and>
      secret_lookups (log_of (bootstrap w (env_of (bootstrap w self c)) c)) = []) \<and>
   ((truthy (arn (image_repository self)) \<longrightarrow> is_user_provided (image_repository self)) \<and>
    \<not> did_user_provide_all_required_resources self \<longrightarrow>
      \<not> did_user_provide_all_required_resources (env_of (bootstrap w self c)) \<and>
      ((c \<longrightarrow> click_confirm w ''Should we proceed with the creation?'') \<and>
       read_template w ENVIRONMENT_RESOURCES_CFN_TEMPLATE = Inr body \<longrightarrow>
         provisioning_calls (log_of (bootstrap w (env_of (bootstrap w self c)) c)) =
           [ManageStack (get_stack_name self) (aws_region self) (aws_profile self) body
              (parameter_overrides (env_of (bootstrap w self c)))]))"
proof (intro conjI impI)
  have noop: "result_of (bootstrap w s c) = Inr True \<and>
      env_of (bootstrap w s c) = s \<and>
      provisioning_calls (log_of (bootstrap w s c)) = [] \<and>
      secret_lookups (log_of (bootstrap w s c)) = []"
    if "did_user_provide_all_required_resources s" for s
    using that
    by (simp add: bootstrap_all_provided result_of_def env_of_def log_of_def
        provisioning_calls_def secret_lookups_def)
  assume provided: "did_user_provide_all_required_resources self"
  from noop [OF provided]
  show "result_of (bootstrap w self c) = Inr True"
    and same: "env_of (bootstrap w self c) = self"
    and "provisioning_calls (log_of (bootstrap w self c)) = []"
    and "secret_lookups (log_of (bootstrap w self c)) = []"
    by simp_all
  from noop [OF provided]
  show "result_of (bootstrap w (env_of (bootstrap w self c)) c) = Inr True"
    and "env_of (bootstrap w (env_of (bootstrap w self c)) c) = self"
    and "provisioning_calls (log_of (bootstrap w (env_of (bootstrap w self c)) c)) = []"
    and "secret_lookups (log_of (bootstrap w (env_of (bootstrap w self c)) c)) = []"
    unfolding same by simp_all
next
  assume built: "(truthy (arn (image_repository self)) \<longrightarrow> is_user_provided (image_repository self)) \<and>
    \<not> did_user_provide_all_required_resources self"
  then show still: "\<not> did_user_provide_all_required_resources (env_of (bootstrap w self c))"
    by (simp add: bootstrap_never_provides)
  assume "(c \<longrightarrow> click_confirm w ''Should we proceed with the creation?'') \<and>
       read_template w ENVIRONMENT_RESOURCES_CFN_TEMPLATE = Inr body"
  then have go: "c \<longrightarrow> click_confirm w ''Should we proceed with the creation?''"
    and read: "read_template w ENVIRONMENT_RESOURCES_CFN_TEMPLATE = Inr body"
    by simp_all
  have kept: "get_stack_name (env_of (bootstrap w self c)) = get_stack_name self"
    by (simp add: get_stack_name_def bootstrap_keeps_name)
  show "provisioning_calls (log_of (bootstrap w (env_of (bootstrap w self c)) c)) =
           [ManageStack (get_stack_name self) (aws_region self) (aws_profile self) body
              (parameter_overrides (env_of (bootstrap w self c)))]"
    using bootstrap_deploy_calls [OF still go read]
    by (simp add: kept bootstrap_keeps_name)
qed

text \<open>
  The environment that a first call leaves where nothing was given and every
  collaborator accepts, and the second call on it.
\<close>

lemma bootstrap_first_call_example:
  "result_of (bootstrap world_ok env_none_given False) = Inr True"
  "env_of (bootstrap world_ok env_none_given False) =
     env_none_given
       \<lparr>pipeline_user := (pipeline_user env_none_given)
          \<lparr>arn := Some ''arn:aws:iam::123456789012:user/new-user'',
           access_key_id := Some ''AKIAEXAMPLE'',
           secret_access_key := Some ''wJalrEXAMPLEKEY''\<rparr>,
        pipeline_execution_role := (pipeline_execution_role env_none_given)
          \<lparr>arn := Some ''arn:aws:iam::123456789012:role/new-pipeline-exec''\<rparr>,
        cloudformation_execution_role := (cloudformation_execution_role env_none_given)
          \<lparr>arn := Some ''arn:aws:iam::123456789012:role/new-cfn-exec''\<rparr>,
        artifacts_bucket := (artifacts_bucket env_none_given)
          \<lparr>arn := Some ''arn:aws:s3:::new-bucket''\<rparr>,
        image_repository := (image_repository env_none_given)\<lparr>arn := None\<rparr>\<rparr>"
proof -
  have missing: "\<not> did_user_provide_all_required_resources env_none_given"
    by (rule did_user_provide_all_required_resources_examples(2))
  have go: "False \<longrightarrow> click_confirm world_ok ''Should we proceed with the creation?''"
    by simp
  show "result_of (bootstrap world_ok env_none_given False) = Inr True"
    using missing go read_template_examples(1) manage_stack_examples(1) secret_key_example
      secret_pair_example
    by (rule bootstrap_with_secret(1))
  show "env_of (bootstrap world_ok env_none_given False) =
     env_none_given
       \<lparr>pipeline_user := (pipeline_user env_none_given)
          \<lparr>arn := Some ''arn:aws:iam::123456789012:user/new-user'',
           access_key_id := Some ''AKIAEXAMPLE'',
           secret_access_key := Some ''wJalrEXAMPLEKEY''\<rparr>,
        pipeline_execution_role := (pipeline_execution_role env_none_given)
          \<lparr>arn := Some ''arn:aws:iam::123456789012:role/new-pipeline-exec''\<rparr>,
        cloudformation_execution_role := (cloudformation_execution_role env_none_given)
          \<lparr>arn := Some ''arn:aws:iam::123456789012:role/new-cfn-exec''\<rparr>,
        artifacts_bucket := (artifacts_bucket env_none_given)
          \<lparr>arn := Some ''arn:aws:s3:::new-bucket''\<rparr>,
        image_repository := (image_repository env_none_given)\<lparr>arn := None\<rparr>\<rparr>"
    using bootstrap_with_secret(2) [OF missing go read_template_examples(1)
        manage_stack_examples(1) secret_key_example secret_pair_example]
    by (simp add: stack_output_created_def)
qed

lemma bootstrap_second_call_example:
  "\<not> did_user_provide_all_required_resources (env_of (bootstrap world_ok env_none_given False))"
  "parameter_overrides (env_of (bootstrap world_ok env_none_given False)) =
     [(''PipelineUserArn'', ''arn:aws:iam::123456789012:user/new-user''),
      (''PipelineExecutionRoleArn'', ''arn:aws:iam::123456789012:role/new-pipeline-exec''),
      (''CloudFormationExecutionRoleArn'', ''arn:aws:iam::123456789012:role/new-cfn-exec''),
      (''ArtifactsBucketArn'', ''arn:aws:s3:::new-bucket''),
      (''CreateImageRepository'', ''false''),
      (''ImageRepositoryArn'', [])]"
  "provisioning_calls (log_of (bootstrap world_ok
       (env_of (bootstrap world_ok env_none_given False)) False)) =
     [ManageStack ''aws-sam-cli-managed-Beta-pipeline-resources'' (Some ''us-east-1'') None
        ''Resources: {}''
        (parameter_overrides (env_of (bootstrap world_ok env_none_given False)))]"
proof -
  show still: "\<not> did_user_provide_all_required_resources
      (env_of (bootstrap world_ok env_none_given False))"
    by (simp add: bootstrap_first_call_example(2) did_user_provide_all_required_resources_def
        get_resources_def is_user_provided_truncate)
       (simp add: example_defs)
  show "parameter_overrides (env_of (bootstrap world_ok env_none_given False)) =
     [(''PipelineUserArn'', ''arn:aws:iam::123456789012:user/new-user''),
      (''PipelineExecutionRoleArn'', ''arn:aws:iam::123456789012:role/new-pipeline-exec''),
      (''CloudFormationExecutionRoleArn'', ''arn:aws:iam::123456789012:role/new-cfn-exec''),
      (''ArtifactsBucketArn'', ''arn:aws:s3:::new-bucket''),
      (''CreateImageRepository'', ''false''),
      (''ImageRepositoryArn'', [])]"
    by (simp add: bootstrap_first_call_example(2) parameter_overrides_def or_empty_def)
       (simp add: example_defs)
  have go: "False \<longrightarrow> click_confirm world_ok ''Should we proceed with the creation?''"
    by simp
  have kept: "get_stack_name (env_of (bootstrap world_ok env_none_given False))
      = ''aws-sam-cli-managed-Beta-pipeline-resources''"
    using stack_name_example(1) by (simp add: get_stack_name_def bootstrap_keeps_name)
  have place: "aws_region env_none_given = Some ''us-east-1''" "aws_profile env_none_given = None"
    by (simp_all add: example_defs)
  show "provisioning_calls (log_of (bootstrap world_ok
       (env_of (bootstrap world_ok env_none_given False)) False)) =
     [ManageStack ''aws-sam-cli-managed-Beta-pipeline-resources'' (Some ''us-east-1'') None
        ''Resources: {}''
        (parameter_overrides (env_of (bootstrap world_ok env_none_given False)))]"
    using bootstrap_deploy_calls [OF still go read_template_examples(1)]
    by (simp add: kept bootstrap_keeps_name place)
qed

theorem bootstrap_all_provided_noop_witness:
  "did_user_provide_all_required_resources env_all_given \<and>
   result_of (bootstrap world_ok env_all_given True) = Inr True \<and>
   env_of (bootstrap world_ok env_all_given True) = env_all_given \<and>
   provisioning_calls (log_of (bootstrap world_ok env_all_given True)) = [] \<and>
   provisioning_calls
     (log_of (bootstrap world_ok (env_of (bootstrap world_ok env_all_given True)) True)) = [] \<and>
   \<not> did_user_provide_all_required_resources env_none_given \<and>
   \<not> did_user_provide_all_required_resources (env_of (bootstrap world_ok env_none_given False)) \<and>
   provisioning_calls (log_of (bootstrap world_ok
       (env_of (bootstrap world_ok env_none_given False)) False)) =
     [ManageStack ''aws-sam-cli-managed-Beta-pipeline-resources'' (Some ''us-east-1'') None
        ''Resources: {}''
        [(''PipelineUserArn'', ''arn:aws:iam::123456789012:user/new-user''),
         (''PipelineExecutionRoleArn'', ''arn:aws:iam::123456789012:role/new-pipeline-exec''),
         (''CloudFormationExecutionRoleArn'', ''arn:aws:iam::123456789012:role/new-cfn-exec''),
         (''ArtifactsBucketArn'', ''arn:aws:s3:::new-bucket''),
         (''CreateImageRepository'', ''false''),
         (''ImageRepositoryArn'', [])]]"
proof -
  have built: "truthy (arn (image_repository env_none_given))
      \<longrightarrow> is_user_provided (image_repository env_none_given)"
    by (simp add: example_defs)
  have place: "aws_region env_none_given = Some ''us-east-1''" "aws_profile env_none_given = None"
    by (simp_all add: example_defs)
  show ?thesis
    using bootstrap_all_provided_noop [of env_all_given world_ok True]
      bootstrap_all_provided_noop [of env_none_given world_ok False "''Resources: {}''"]
      did_user_provide_all_required_resources_examples(1,2) built
    by (simp add: read_template_examples stack_name_example place
        bootstrap_second_call_example(2))
qed

text \<open>
  As the specification states it, C2 fails in its second part: a first call that
  succeeds and sets the ARN of every required resource leaves an environment on which
  the second call with the same collaborators and flag calls the provisioning backend
  again.
\<close>

theorem second_bootstrap_provisions_again:
  "result_of (bootstrap world_ok env_none_given False) = Inr True \<and>
   arn (pipeline_user (env_of (bootstrap world_ok env_none_given False)))
     = Some ''arn:aws:iam::123456789012:user/new-user'' \<and>
   arn (pipeline_execution_role (env_of (bootstrap world_ok env_none_given False)))
     = Some ''arn:aws:iam::123456789012:role/new-pipeline-exec'' \<and>
   arn (cloudformation_execution_role (env_of (bootstrap world_ok env_none_given False)))
     = Some ''arn:aws:iam::123456789012:role/new-cfn-exec'' \<and>
   arn (artifacts_bucket (env_of (bootstrap world_ok env_none_given False)))
     = Some ''arn:aws:s3:::new-bucket'' \<and>
   create_image_repository (env_of (bootstrap world_ok env_none_given False)) = False \<and>
   provisioning_calls (log_of (bootstrap world_ok
       (env_of (bootstrap world_ok env_none_given False)) False)) =
     [ManageStack ''aws-sam-cli-managed-Beta-pipeline-resources'' (Some ''us-east-1'') None
        ''Resources: {}''
        [(''PipelineUserArn'', ''arn:aws:iam::123456789012:user/new-user''),
         (''PipelineExecutionRoleArn'', ''arn:aws:iam::123456789012:role/new-pipeline-exec''),
         (''CloudFormationExecutionRoleArn'', ''arn:aws:iam::123456789012:role/new-cfn-exec''),
         (''ArtifactsBucketArn'', ''arn:aws:s3:::new-bucket''),
         (''CreateImageRepository'', ''false''),
         (''ImageRepositoryArn'', [])]]"
proof -
  have created: "create_image_repository env_none_given = False"
    by (simp add: example_defs)
  show ?thesis
    by (simp add: bootstrap_second_call_example(3) bootstrap_second_call_example(2)
        bootstrap_first_call_example(1))
       (simp add: bootstrap_first_call_example(2) created)
qed

text \<open>
  C4. When a required resource is not user-provided and the user declines the
  confirmation that \<^verbatim>\<open>bootstrap(confirm_changeset=True)\<close> asks for, the call returns false,
  the environment (every descriptor's ARN and the credential pair) is unchanged, and
  neither the provisioning backend nor the secrets manager is called.
\<close>

theorem bootstrap_declined_no_effect:
  "\<not> did_user_provide_all_required_resources self \<Longrightarrow>
   \<not> click_confirm w ''Should we proceed with the creation?'' \<Longrightarrow>
     result_of (bootstrap w self True) = Inr False \<and>
     env_of (bootstrap w self True) = self \<and>
     provisioning_calls (log_of (bootstrap w self True)) = [] \<and>
     secret_lookups (log_of (bootstrap w self True)) = []"
  by (simp add: bootstrap_declined result_of_def env_of_def log_of_def
      provisioning_calls_def secret_lookups_def)

theorem bootstrap_declined_no_effect_witness:
  "\<not> did_user_provide_all_required_resources env_none_given \<and>
   \<not> click_confirm world_declined ''Should we proceed with the creation?'' \<and>
   result_of (bootstrap world_declined env_none_given True) = Inr False \<and>
   env_of (bootstrap world_declined env_none_given True) = env_none_given \<and>
   provisioning_calls (log_of (bootstrap world_declined env_none_given True)) = [] \<and>
   secret_lookups (log_of (bootstrap world_declined env_none_given True)) = []"
proof -
  have declined: "\<not> click_confirm world_declined ''Should we proceed with the creation?''"
    by (simp add: world_declined_def)
  show ?thesis
    using bootstrap_declined_no_effect
      [OF did_user_provide_all_required_resources_examples(2) declined] declined
      did_user_provide_all_required_resources_examples(2)
    by simp
qed

text \<open>
  C5 (amended). When \<^verbatim>\<open>bootstrap\<close> proceeds past the confirmation step (a required resource
  is missing, and the user confirms when asked) and the template file is read, it calls
  the provisioning backend exactly once, with the overrides holding every descriptor's
  current ARN, the empty string for an ARN that is not set, and the flag
  \<^verbatim>\<open>CreateImageRepository\<close> as \<^verbatim>\<open>"true"\<close> or \<^verbatim>\<open>"false"\<close>. When reading the template raises,
  the exception leaves \<^verbatim>\<open>bootstrap\<close>, the environment is unchanged and neither the
  provisioning backend nor the secrets manager is called.
\<close>

theorem bootstrap_invokes_backend_once:
  "\<not> did_user_provide_all_required_resources self \<Longrightarrow>
   (c \<longrightarrow> click_confirm w ''Should we proceed with the creation?'') \<Longrightarrow>
     (read_template w ENVIRONMENT_RESOURCES_CFN_TEMPLATE = Inr body \<longrightarrow>
        provisioning_calls (log_of (bootstrap w self c)) =
          [ManageStack (get_stack_name self) (aws_region self) (aws_profile self) body
             [(''PipelineUserArn'',
                 case arn (pipeline_user self) of None \<Rightarrow> [] | Some a \<Rightarrow> a),
              (''PipelineExecutionRoleArn'',
                 case arn (pipeline_execution_role self) of None \<Rightarrow> [] | Some a \<Rightarrow> a),
              (''CloudFormationExecutionRoleArn'',
                 case arn (cloudformation_execution_role self) of None \<Rightarrow> [] | Some a \<Rightarrow> a),
              (''ArtifactsBucketArn'',
                 case arn (artifacts_bucket self) of None \<Rightarrow> [] | Some a \<Rightarrow> a),
              (''CreateImageRepository'',
                 if create_image_repository self then ''true'' else ''false''),
              (''ImageRepositoryArn'',
                 case arn (image_repository self) of None \<Rightarrow> [] | Some a \<Rightarrow> a)]]) \<and>
     (read_template w ENVIRONMENT_RESOURCES_CFN_TEMPLATE = Inl e \<longrightarrow>
        result_of (bootstrap w self c) = Inl e \<and>
        env_of (bootstrap w self c) = self \<and>
        provisioning_calls (log_of (bootstrap w self c)) = [] \<and>
        secret_lookups (log_of (bootstrap w self c)) = [])"
  by (simp add: bootstrap_deploy_calls bootstrap_template_raises parameter_overrides_def
      or_empty_def)

theorem bootstrap_invokes_backend_once_witness:
  "\<not> did_user_provide_all_required_resources env_role_given \<and>
   click_confirm world_ok ''Should we proceed with the creation?'' \<and>
   read_template world_ok ENVIRONMENT_RESOURCES_CFN_TEMPLATE = Inr ''Resources: {}'' \<and>
   provisioning_calls (log_of (bootstrap world_ok env_role_given True)) =
     [ManageStack ''aws-sam-cli-managed-Beta-pipeline-resources'' (Some ''us-east-1'') None
        ''Resources: {}''
        [(''PipelineUserArn'', []),
         (''PipelineExecutionRoleArn'', ''arn:aws:iam::123456789012:role/pipeline-exec''),
         (''CloudFormationExecutionRoleArn'', []),
         (''ArtifactsBucketArn'', []),
         (''CreateImageRepository'', ''false''),
         (''ImageRepositoryArn'', [])]] \<and>
   read_template world_template_missing ENVIRONMENT_RESOURCES_CFN_TEMPLATE
     = Inl (Exception ''FileNotFoundError'') \<and>
   result_of (bootstrap world_template_missing env_role_given True)
     = Inl (Exception ''FileNotFoundError'') \<and>
   provisioning_calls (log_of (bootstrap world_template_missing env_role_given True)) = []"
proof -
  have yes: "True \<longrightarrow> click_confirm world_ok ''Should we proceed with the creation?''"
    "True \<longrightarrow> click_confirm world_template_missing ''Should we proceed with the creation?''"
    by (simp_all add: world_ok_def world_template_missing_def)
  have given: "arn (pipeline_user env_role_given) = None"
    "arn (pipeline_execution_role env_role_given)
       = Some ''arn:aws:iam::123456789012:role/pipeline-exec''"
    "arn (cloudformation_execution_role env_role_given) = None"
    "arn (artifacts_bucket env_role_given) = None"
    "arn (image_repository env_role_given) = None"
    "create_image_repository env_role_given = False"
    "aws_region env_role_given = Some ''us-east-1''" "aws_profile env_role_given = None"
    by (simp_all add: example_defs)
  show ?thesis
    using bootstrap_invokes_backend_once
      [OF did_user_provide_all_required_resources_examples(4) yes(1),
       where body = "''Resources: {}''"]
      bootstrap_invokes_backend_once
      [OF did_user_provide_all_required_resources_examples(4) yes(2),
       where e = "Exception ''FileNotFoundError''"]
      did_user_provide_all_required_resources_examples(4) yes
    by (simp add: read_template_examples stack_name_example given)
qed

text \<open>
  As the specification states it, C5 fails where the template file cannot be read:
  \<^verbatim>\<open>bootstrap\<close> is past the confirmation step (no confirmation is asked for), raises, and
  has not called the provisioning backend.
\<close>

theorem unreadable_template_no_backend_call:
  "\<not> did_user_provide_all_required_resources env_none_given \<and>
   result_of (bootstrap world_template_missing env_none_given False)
     = Inl (Exception ''FileNotFoundError'') \<and>
   provisioning_calls (log_of (bootstrap world_template_missing env_none_given False)) = []"
proof -
  have go: "False \<longrightarrow> click_confirm world_template_missing ''Should we proceed with the creation?''"
    by simp
  show ?thesis
    using bootstrap_template_raises(1,3)
      [OF did_user_provide_all_required_resources_examples(2) go read_template_examples(5)]
      did_user_provide_all_required_resources_examples(2)
    by simp
qed

text \<open>
  C7. The stack name is the fixed prefix, a hyphen, the environment name with every
  maximal run of non-alphanumeric characters replaced by a single hyphen, a hyphen and
  the fixed suffix; the name \<^verbatim>\<open>My Env!\<close> gives
  \<^verbatim>\<open>aws-sam-cli-managed-My-Env--pipeline-resources\<close>; every call that \<^verbatim>\<open>bootstrap\<close> makes to
  the provisioning backend carries this stack name, and past the confirmation step,
  with the template read, there is one such call.
\<close>

theorem get_stack_name_collapses_runs:
  "get_stack_name self =
     STACK_NAME_PREFIX @ ''-'' @ collapse_runs (name self) @ ''-''
       @ ENVIRONMENT_RESOURCES_STACK_NAME_SUFFIX \<and>
   get_stack_name (self\<lparr>name := ''My Env!''\<rparr>) = ''aws-sam-cli-managed-My-Env--pipeline-resources'' \<and>
   (ManageStack stack_name region profile body overrides \<in> set (log_of (bootstrap w self c)) \<longrightarrow>
      stack_name =
        STACK_NAME_PREFIX @ ''-'' @ collapse_runs (name self) @ ''-''
          @ ENVIRONMENT_RESOURCES_STACK_NAME_SUFFIX) \<and>
   (\<not> did_user_provide_all_required_resources self \<and>
    (c \<longrightarrow> click_confirm w ''Should we proceed with the creation?'') \<and>
    read_template w ENVIRONMENT_RESOURCES_CFN_TEMPLATE = Inr template \<longrightarrow>
      (\<exists>region profile overrides.
         provisioning_calls (log_of (bootstrap w self c)) =
           [ManageStack
              (STACK_NAME_PREFIX @ ''-'' @ collapse_runs (name self) @ ''-''
                 @ ENVIRONMENT_RESOURCES_STACK_NAME_SUFFIX)
              region profile template overrides]))"
proof (intro conjI impI)
  show derived: "get_stack_name self =
     STACK_NAME_PREFIX @ ''-'' @ collapse_runs (name self) @ ''-''
       @ ENVIRONMENT_RESOURCES_STACK_NAME_SUFFIX"
    by (simp add: get_stack_name_def re_sub_non_alnum_collapse_runs)
  show "get_stack_name (self\<lparr>name := ''My Env!''\<rparr>)
      = ''aws-sam-cli-managed-My-Env--pipeline-resources''"
    by (simp add: get_stack_name_def alnum_def STACK_NAME_PREFIX_def
        ENVIRONMENT_RESOURCES_STACK_NAME_SUFFIX_def)
  show "stack_name =
        STACK_NAME_PREFIX @ ''-'' @ collapse_runs (name self) @ ''-''
          @ ENVIRONMENT_RESOURCES_STACK_NAME_SUFFIX"
    if "ManageStack stack_name region profile body overrides \<in> set (log_of (bootstrap w self c))"
    using bootstrap_calls_carry_stack_name [OF that] derived by simp
  assume "\<not> did_user_provide_all_required_resources self \<and>
    (c \<longrightarrow> click_confirm w ''Should we proceed with the creation?'') \<and>
    read_template w ENVIRONMENT_RESOURCES_CFN_TEMPLATE = Inr template"
  then have "provisioning_calls (log_of (bootstrap w self c)) =
       [ManageStack (get_stack_name self) (aws_region self) (aws_profile self)
        template (parameter_overrides self)]"
    by (simp add: bootstrap_deploy_calls)
  then show "\<exists>region profile overrides.
         provisioning_calls (log_of (bootstrap w self c)) =
           [ManageStack
              (STACK_NAME_PREFIX @ ''-'' @ collapse_runs (name self) @ ''-''
                 @ ENVIRONMENT_RESOURCES_STACK_NAME_SUFFIX)
              region profile template overrides]"
    unfolding derived by blast
qed

theorem get_stack_name_collapses_runs_witness:
  "\<not> did_user_provide_all_required_resources (env_none_given\<lparr>name := ''My Env!''\<rparr>) \<and>
   read_template world_ok ENVIRONMENT_RESOURCES_CFN_TEMPLATE = Inr ''Resources: {}'' \<and>
   ManageStack ''aws-sam-cli-managed-My-Env--pipeline-resources'' (Some ''us-east-1'') None
       ''Resources: {}''
       [(''PipelineUserArn'', []), (''PipelineExecutionRoleArn'', []),
        (''CloudFormationExecutionRoleArn'', []), (''ArtifactsBucketArn'', []),
        (''CreateImageRepository'', ''false''), (''ImageRepositoryArn'', [])]
     \<in> set (log_of (bootstrap world_ok (env_none_given\<lparr>name := ''My Env!''\<rparr>) False)) \<and>
   (\<exists>region profile overrides.
      provisioning_calls (log_of (bootstrap world_ok (env_none_given\<lparr>name := ''My Env!''\<rparr>) False)) =
        [ManageStack ''aws-sam-cli-managed-My-Env--pipeline-resources''
           region profile ''Resources: {}'' overrides])"
proof -
  let ?env = "env_none_given\<lparr>name := ''My Env!''\<rparr>"
  have missing: "\<not> did_user_provide_all_required_resources ?env"
    by (simp add: did_user_provide_all_required_resources_def get_resources_def
        is_user_provided_truncate example_defs)
  have collapsed: "collapse_runs ''My Env!'' = ''My-Env-''"
    by (simp add: collapse_runs_def alnum_def)
  have go: "False \<longrightarrow> click_confirm world_ok ''Should we proceed with the creation?''"
    by simp
  have "ManageStack (get_stack_name ?env) (aws_region ?env) (aws_profile ?env)
        ''Resources: {}'' (parameter_overrides ?env)
      \<in> set (provisioning_calls (log_of (bootstrap world_ok ?env False)))"
    by (simp add: bootstrap_deploy_calls [OF missing go read_template_examples(1)])
  then have "ManageStack (get_stack_name ?env) (aws_region ?env) (aws_profile ?env)
        ''Resources: {}'' (parameter_overrides ?env)
      \<in> set (log_of (bootstrap world_ok ?env False))"
    by (simp add: provisioning_calls_def)
  moreover have "get_stack_name ?env = ''aws-sam-cli-managed-My-Env--pipeline-resources''"
    by (simp add: get_stack_name_def alnum_def STACK_NAME_PREFIX_def
        ENVIRONMENT_RESOURCES_STACK_NAME_SUFFIX_def)
  moreover have "aws_region ?env = Some ''us-east-1''" "aws_profile ?env = None"
    "parameter_overrides ?env =
       [(''PipelineUserArn'', []), (''PipelineExecutionRoleArn'', []),
        (''CloudFormationExecutionRoleArn'', []), (''ArtifactsBucketArn'', []),
        (''CreateImageRepository'', ''false''), (''ImageRepositoryArn'', [])]"
    by (simp_all add: parameter_overrides_def example_defs)
  ultimately have called:
    "ManageStack ''aws-sam-cli-managed-My-Env--pipeline-resources'' (Some ''us-east-1'') None
       ''Resources: {}''
       [(''PipelineUserArn'', []), (''PipelineExecutionRoleArn'', []),
        (''CloudFormationExecutionRoleArn'', []), (''ArtifactsBucketArn'', []),
        (''CreateImageRepository'', ''false''), (''ImageRepositoryArn'', [])]
     \<in> set (log_of (bootstrap world_ok ?env False))"
    by simp
  show ?thesis
    using get_stack_name_collapses_runs
      [where self = ?env and c = False and w = world_ok and template = "''Resources: {}''"
         and stack_name = "''aws-sam-cli-managed-My-Env--pipeline-resources''"
         and region = "Some ''us-east-1''" and profile = None and body = "''Resources: {}''"
         and overrides = "[(''PipelineUserArn'', []), (''PipelineExecutionRoleArn'', []),
        (''CloudFormationExecutionRoleArn'', []), (''ArtifactsBucketArn'', []),
        (''CreateImageRepository'', ''false''), (''ImageRepositoryArn'', [])]"]
      missing called
    by (simp add: collapsed read_template_examples STACK_NAME_PREFIX_def
        ENVIRONMENT_RESOURCES_STACK_NAME_SUFFIX_def)
qed

text \<open>
  C6 (amended). After a successful provisioning call inside \<^verbatim>\<open>bootstrap\<close>: if the output
  \<^verbatim>\<open>PipelineUserSecretKey\<close> is present and not empty, then, once the session and its
  client for the secrets manager are created, exactly one lookup against the secrets
  manager is made, for that secret; when the lookup gives a secret string that parses
  to an object with both keys, \<^verbatim>\<open>bootstrap\<close> returns true with the pair stored on the
  pipeline user; when creating the session or the client raises, no lookup is made; and
  whenever the secret cannot be obtained, the exception leaves \<^verbatim>\<open>bootstrap\<close> and the pair
  is as before. If the output key is absent or its value is empty, no lookup is made,
  \<^verbatim>\<open>bootstrap\<close> returns true and the pair is as before.
\<close>

theorem bootstrap_secret_lookup:
  assumes "\<not> did_user_provide_all_required_resources self"
    and "c \<longrightarrow> click_confirm w ''Should we proceed with the creation?''"
    and "read_template w ENVIRONMENT_RESOURCES_CFN_TEMPLATE = Inr body"
    and "manage_stack w (get_stack_name self) (aws_region self) (aws_profile self)
        body (parameter_overrides self) = Inr output"
  shows
    "(output ''PipelineUserSecretKey'' = Some secret_id \<and> secret_id \<noteq> [] \<longrightarrow>
        (boto3_Session w (aws_profile self)
             (if truthy (aws_region self) then aws_region self else None) = None \<and>
         session_client w (aws_profile self)
             (if truthy (aws_region self) then aws_region self else None) ''secretsmanager''
           = None \<longrightarrow>
           secret_lookups (log_of (bootstrap w self c)) =
             [GetSecretValue (aws_profile self)
                (if truthy (aws_region self) then aws_region self else None) secret_id] \<and>
           (get_secret_value w (aws_profile self)
                (if truthy (aws_region self) then aws_region self else None) secret_id
              = Inr response \<and>
            response ''SecretString'' = Some secret_string \<and>
            json_loads w secret_string = Inr secret_json \<and>
            secret_json ''aws_access_key_id'' = Some key_id \<and>
            secret_json ''aws_secret_access_key'' = Some secret_key \<longrightarrow>
              result_of (bootstrap w self c) = Inr True \<and>
              access_key_id (pipeline_user (env_of (bootstrap w self c))) = Some key_id \<and>
              secret_access_key (pipeline_user (env_of (bootstrap w self c)))
                = Some secret_key)) \<and>
        (boto3_Session w (aws_profile self)
             (if truthy (aws_region self) then aws_region self else None) \<noteq> None \<or>
         session_client w (aws_profile self)
             (if truthy (aws_region self) then aws_region self else None) ''secretsmanager''
           \<noteq> None \<longrightarrow>
           secret_lookups (log_of (bootstrap w self c)) = [] \<and>
           result_of (bootstrap w self c) \<noteq> Inr True) \<and>
        (fst (get_pipeline_user_secret_pair w secret_id (aws_profile self) (aws_region self))
           = Inl e \<longrightarrow>
           result_of (bootstrap w self c) = Inl e \<and>
           access_key_id (pipeline_user (env_of (bootstrap w self c)))
             = access_key_id (pipeline_user self) \<and>
           secret_access_key (pipeline_user (env_of (bootstrap w self c)))
             = secret_access_key (pipeline_user self))) \<and>
     (output ''PipelineUserSecretKey'' = None \<or> output ''PipelineUserSecretKey'' = Some [] \<longrightarrow>
        result_of (bootstrap w self c) = Inr True \<and>
        secret_lookups (log_of (bootstrap w self c)) = [] \<and>
        access_key_id (pipeline_user (env_of (bootstrap w self c)))
          = access_key_id (pipeline_user self) \<and>
        secret_access_key (pipeline_user (env_of (bootstrap w self c)))
          = secret_access_key (pipeline_user self))"
proof (intro conjI impI)
  let ?region = "if truthy (aws_region self) then aws_region self else None"
  assume present: "output ''PipelineUserSecretKey'' = Some secret_id \<and> secret_id \<noteq> []"
  then have sid: "output ''PipelineUserSecretKey'' = Some secret_id" "secret_id \<noteq> []"
    by simp_all
  have lookups: "secret_lookups (log_of (bootstrap w self c)) =
      secret_lookups
        (snd (get_pipeline_user_secret_pair w secret_id (aws_profile self) (aws_region self)))"
  proof (cases rule: secret_pair_cases [of w secret_id "aws_profile self" "aws_region self"])
    case (1 e)
    with assms sid show ?thesis by (rule bootstrap_secret_raises(4))
  next
    case (2 key_id secret_key)
    with assms sid have "secret_lookups (log_of (bootstrap w self c)) =
       [GetSecretValue (aws_profile self) ?region secret_id]"
      by (rule bootstrap_with_secret(4))
    with secret_pair_returns [OF 2] show ?thesis
      by (simp add: secret_pair_lookups)
  qed
  {
    assume created: "boto3_Session w (aws_profile self) ?region = None \<and>
         session_client w (aws_profile self) ?region ''secretsmanager'' = None"
    with lookups show "secret_lookups (log_of (bootstrap w self c)) =
             [GetSecretValue (aws_profile self) ?region secret_id]"
      by (simp add: secret_pair_lookups)
    assume "get_secret_value w (aws_profile self) ?region secret_id = Inr response \<and>
            response ''SecretString'' = Some secret_string \<and>
            json_loads w secret_string = Inr secret_json \<and>
            secret_json ''aws_access_key_id'' = Some key_id \<and>
            secret_json ''aws_secret_access_key'' = Some secret_key"
    with created have found:
      "fst (get_pipeline_user_secret_pair w secret_id (aws_profile self) (aws_region self))
         = Inr (key_id, secret_key)"
      by (simp add: secret_pair_found [where response = response
            and secret_string = secret_string and secret_json = secret_json])
    show "result_of (bootstrap w self c) = Inr True"
      using assms sid found by (rule bootstrap_with_secret(1))
    have env: "env_of (bootstrap w self c) =
        self\<lparr>pipeline_user := (pipeline_user self)
               \<lparr>arn := output ''PipelineUser'', access_key_id := Some key_id,
                secret_access_key := Some secret_key\<rparr>,
             pipeline_execution_role :=
               (pipeline_execution_role self)\<lparr>arn := output ''PipelineExecutionRole''\<rparr>,
             cloudformation_execution_role :=
               (cloudformation_execution_role self)\<lparr>arn := output ''CloudFormationExecutionRole''\<rparr>,
             artifacts_bucket := (artifacts_bucket self)\<lparr>arn := output ''ArtifactsBucket''\<rparr>,
             image_repository := (image_repository self)\<lparr>arn := output ''ImageRepository''\<rparr>\<rparr>"
      using assms sid found by (rule bootstrap_with_secret(2))
    show "access_key_id (pipeline_user (env_of (bootstrap w self c))) = Some key_id"
      by (simp add: env)
    show "secret_access_key (pipeline_user (env_of (bootstrap w self c))) = Some secret_key"
      by (simp add: env)
  }
  {
    assume failed: "boto3_Session w (aws_profile self) ?region \<noteq> None \<or>
         session_client w (aws_profile self) ?region ''secretsmanager'' \<noteq> None"
    with lookups show "secret_lookups (log_of (bootstrap w self c)) = []"
      by (auto simp: secret_pair_lookups)
    from failed obtain x where
      "fst (get_pipeline_user_secret_pair w secret_id (aws_profile self) (aws_region self)) = Inl x"
      by (cases rule: secret_pair_cases [of w secret_id "aws_profile self" "aws_region self"])
         (auto dest: secret_pair_returns)
    with assms sid have "result_of (bootstrap w self c) = Inl x"
      by (rule bootstrap_secret_raises(1))
    then show "result_of (bootstrap w self c) \<noteq> Inr True"
      by simp
  }
  {
    assume raised:
      "fst (get_pipeline_user_secret_pair w secret_id (aws_profile self) (aws_region self)) = Inl e"
    show "result_of (bootstrap w self c) = Inl e"
      using assms sid raised by (rule bootstrap_secret_raises(1))
    have env: "env_of (bootstrap w self c) =
        self\<lparr>pipeline_user := (pipeline_user self)\<lparr>arn := output ''PipelineUser''\<rparr>\<rparr>"
      using assms sid raised by (rule bootstrap_secret_raises(2))
    show "access_key_id (pipeline_user (env_of (bootstrap w self c)))
            = access_key_id (pipeline_user self)"
      by (simp add: env)
    show "secret_access_key (pipeline_user (env_of (bootstrap w self c)))
            = secret_access_key (pipeline_user self)"
      by (simp add: env)
  }
next
  assume "output ''PipelineUserSecretKey'' = None \<or> output ''PipelineUserSecretKey'' = Some []"
  then have absent: "\<not> truthy (output ''PipelineUserSecretKey'')"
    by (auto simp: truthy_def)
  show "result_of (bootstrap w self c) = Inr True"
    using assms absent by (rule bootstrap_without_secret(1))
  show "secret_lookups (log_of (bootstrap w self c)) = []"
    using assms absent by (rule bootstrap_without_secret(4))
  have env: "env_of (bootstrap w self c) =
      self\<lparr>pipeline_user := (pipeline_user self)\<lparr>arn := output ''PipelineUser''\<rparr>,
           pipeline_execution_role :=
             (pipeline_execution_role self)\<lparr>arn := output ''PipelineExecutionRole''\<rparr>,
           cloudformation_execution_role :=
             (cloudformation_execution_role self)\<lparr>arn := output ''CloudFormationExecutionRole''\<rparr>,
           artifacts_bucket := (artifacts_bucket self)\<lparr>arn := output ''ArtifactsBucket''\<rparr>,
           image_repository := (image_repository self)\<lparr>arn := output ''ImageRepository''\<rparr>\<rparr>"
    using assms absent by (rule bootstrap_without_secret(2))
  show "access_key_id (pipeline_user (env_of (bootstrap w self c)))
          = access_key_id (pipeline_user self)"
    by (simp add: env)
  show "secret_access_key (pipeline_user (env_of (bootstrap w self c)))
          = secret_access_key (pipeline_user self)"
    by (simp add: env)
qed

theorem bootstrap_secret_lookup_witness:
  "\<not> did_user_provide_all_required_resources env_none_given \<and>
   stack_output_created ''PipelineUserSecretKey''
     = Some ''arn:aws:secretsmanager:us-east-1:123456789012:secret:new'' \<and>
   secret_lookups (log_of (bootstrap world_ok env_none_given False)) =
     [GetSecretValue None (Some ''us-east-1'')
        ''arn:aws:secretsmanager:us-east-1:123456789012:secret:new''] \<and>
   result_of (bootstrap world_ok env_none_given False) = Inr True \<and>
   access_key_id (pipeline_user (env_of (bootstrap world_ok env_none_given False)))
     = Some ''AKIAEXAMPLE'' \<and>
   secret_access_key (pipeline_user (env_of (bootstrap world_ok env_none_given False)))
     = Some ''wJalrEXAMPLEKEY'' \<and>
   (stack_output_created(''PipelineUserSecretKey'' \<mapsto> [])) ''PipelineUserSecretKey'' = Some [] \<and>
   result_of (bootstrap world_empty_secret_key env_none_given False) = Inr True \<and>
   secret_lookups (log_of (bootstrap world_empty_secret_key env_none_given False)) = [] \<and>
   access_key_id (pipeline_user (env_of (bootstrap world_empty_secret_key env_none_given False)))
     = None \<and>
   result_of (bootstrap world_secret_denied env_none_given False)
     = Inl (Exception ''AccessDeniedException'') \<and>
   secret_access_key (pipeline_user (env_of (bootstrap world_secret_denied env_none_given False)))
     = None \<and>
   boto3_Session world_profile_missing None (Some ''us-east-1'')
     = Some (Exception ''ProfileNotFound'') \<and>
   secret_lookups (log_of (bootstrap world_profile_missing env_none_given False)) = [] \<and>
   result_of (bootstrap world_profile_missing env_none_given False) \<noteq> Inr True"
proof -
  have missing: "\<not> did_user_provide_all_required_resources env_none_given"
    by (rule did_user_provide_all_required_resources_examples(2))
  have go: "False \<longrightarrow> click_confirm w ''Should we proceed with the creation?''" for w
    by simp
  have place: "aws_region env_none_given = Some ''us-east-1''" "aws_profile env_none_given = None"
    "access_key_id (pipeline_user env_none_given) = None"
    "secret_access_key (pipeline_user env_none_given) = None"
    by (simp_all add: example_defs)
  note found = bootstrap_secret_lookup
    [OF missing go read_template_examples(1) manage_stack_examples(1),
      where secret_id = "''arn:aws:secretsmanager:us-east-1:123456789012:secret:new''"
        and response = "[''SecretString'' \<mapsto> ''{}'']" and secret_string = "''{}''"
        and secret_json = "[''aws_access_key_id'' \<mapsto> ''AKIAEXAMPLE'',
                              ''aws_secret_access_key'' \<mapsto> ''wJalrEXAMPLEKEY'']"
        and key_id = "''AKIAEXAMPLE''" and secret_key = "''wJalrEXAMPLEKEY''"]
  have accepted: "secret_lookups (log_of (bootstrap world_ok env_none_given False)) =
     [GetSecretValue None (Some ''us-east-1'')
        ''arn:aws:secretsmanager:us-east-1:123456789012:secret:new''] \<and>
     result_of (bootstrap world_ok env_none_given False) = Inr True \<and>
     access_key_id (pipeline_user (env_of (bootstrap world_ok env_none_given False)))
       = Some ''AKIAEXAMPLE'' \<and>
     secret_access_key (pipeline_user (env_of (bootstrap world_ok env_none_given False)))
       = Some ''wJalrEXAMPLEKEY''"
    using found
    by (simp add: secret_key_example session_examples place truthy_def) (simp add: world_ok_def)
  note empty = bootstrap_secret_lookup
    [OF missing go read_template_examples(3) manage_stack_examples(3)]
  have skipped: "result_of (bootstrap world_empty_secret_key env_none_given False) = Inr True \<and>
     secret_lookups (log_of (bootstrap world_empty_secret_key env_none_given False)) = [] \<and>
     access_key_id (pipeline_user (env_of (bootstrap world_empty_secret_key env_none_given False)))
       = None"
    using empty by (simp add: place)
  note denied = bootstrap_secret_lookup
    [OF missing go read_template_examples(2) manage_stack_examples(2),
      where secret_id = "''arn:aws:secretsmanager:us-east-1:123456789012:secret:new''"
        and e = "Exception ''AccessDeniedException''"]
  have refused: "result_of (bootstrap world_secret_denied env_none_given False)
       = Inl (Exception ''AccessDeniedException'') \<and>
     secret_access_key (pipeline_user (env_of (bootstrap world_secret_denied env_none_given False)))
       = None"
    using denied by (simp add: secret_key_example secret_pair_denied place)
  note lost = bootstrap_secret_lookup
    [OF missing go read_template_examples(4) manage_stack_examples(4),
      where secret_id = "''arn:aws:secretsmanager:us-east-1:123456789012:secret:new''"]
  have no_session: "secret_lookups (log_of (bootstrap world_profile_missing env_none_given False)) = [] \<and>
     result_of (bootstrap world_profile_missing env_none_given False) \<noteq> Inr True"
    using lost by (simp add: secret_key_example session_examples place truthy_def)
  show ?thesis
    using missing accepted skipped refused no_session
    by (simp add: secret_key_example session_examples)
qed

text \<open>
  As the specification states it, C6 fails where the output mapping contains the key
  \<^verbatim>\<open>PipelineUserSecretKey\<close> with an empty value: \<^verbatim>\<open>bootstrap\<close> returns true and has made no
  lookup.
\<close>

theorem secret_key_present_without_lookup:
  "manage_stack world_empty_secret_key (get_stack_name env_none_given)
      (aws_region env_none_given) (aws_profile env_none_given) ''Resources: {}''
      (parameter_overrides env_none_given)
     = Inr (stack_output_created(''PipelineUserSecretKey'' \<mapsto> [])) \<and>
   ''PipelineUserSecretKey'' \<in> dom (stack_output_created(''PipelineUserSecretKey'' \<mapsto> [])) \<and>
   result_of (bootstrap world_empty_secret_key env_none_given False) = Inr True \<and>
   secret_lookups (log_of (bootstrap world_empty_secret_key env_none_given False)) = []"
proof -
  have "\<not> truthy ((stack_output_created(''PipelineUserSecretKey'' \<mapsto> [])) ''PipelineUserSecretKey'')"
    by (simp add: truthy_def)
  then show ?thesis
    using bootstrap_without_secret(1,4)
      [OF did_user_provide_all_required_resources_examples(2) _ read_template_examples(3)
        manage_stack_examples(3), of False]
    by (simp add: manage_stack_examples)
qed

text \<open>
  C10 (amended). After the provisioning call inside \<^verbatim>\<open>bootstrap\<close> succeeds, the pipeline
  user's ARN is the value of the output \<^verbatim>\<open>PipelineUser\<close>, and \<^verbatim>\<open>name\<close>, \<^verbatim>\<open>aws_profile\<close>,
  \<^verbatim>\<open>aws_region\<close> and \<^verbatim>\<open>create_image_repository\<close> are unchanged. When \<^verbatim>\<open>bootstrap\<close> then
  returns true (the secret lookup, if one is made, does not raise), the ARNs of the
  other four descriptors are the values of their output keys, \<open>None\<close> for an absent key
  whatever the caller supplied; when it does not (the secret lookup raises), these four
  descriptors are as before.
\<close>

theorem bootstrap_captures_outputs:
  assumes "\<not> did_user_provide_all_required_resources self"
    and "c \<longrightarrow> click_confirm w ''Should we proceed with the creation?''"
    and "read_template w ENVIRONMENT_RESOURCES_CFN_TEMPLATE = Inr body"
    and "manage_stack w (get_stack_name self) (aws_region self) (aws_profile self)
        body (parameter_overrides self) = Inr output"
  shows
    "arn (pipeline_user (env_of (bootstrap w self c))) = output ''PipelineUser'' \<and>
     name (env_of (bootstrap w self c)) = name self \<and>
     aws_profile (env_of (bootstrap w self c)) = aws_profile self \<and>
     aws_region (env_of (bootstrap w self c)) = aws_region self \<and>
     create_image_repository (env_of (bootstrap w self c)) = create_image_repository self \<and>
     (result_of (bootstrap w self c) = Inr True \<longrightarrow>
        arn (pipeline_execution_role (env_of (bootstrap w self c)))
          = output ''PipelineExecutionRole'' \<and>
        arn (cloudformation_execution_role (env_of (bootstrap w self c)))
          = output ''CloudFormationExecutionRole'' \<and>
        arn (artifacts_bucket (env_of (bootstrap w self c))) = output ''ArtifactsBucket'' \<and>
        arn (image_repository (env_of (bootstrap w self c))) = output ''ImageRepository'') \<and>
     (result_of (bootstrap w self c) \<noteq> Inr True \<longrightarrow>
        pipeline_execution_role (env_of (bootstrap w self c)) = pipeline_execution_role self \<and>
        cloudformation_execution_role (env_of (bootstrap w self c))
          = cloudformation_execution_role self \<and>
        artifacts_bucket (env_of (bootstrap w self c)) = artifacts_bucket self \<and>
        image_repository (env_of (bootstrap w self c)) = image_repository self)"
proof (cases "truthy (output ''PipelineUserSecretKey'')")
  case False
  have "result_of (bootstrap w self c) = Inr True"
    using assms False by (rule bootstrap_without_secret(1))
  moreover have "env_of (bootstrap w self c) =
      self\<lparr>pipeline_user := (pipeline_user self)\<lparr>arn := output ''PipelineUser''\<rparr>,
           pipeline_execution_role :=
             (pipeline_execution_role self)\<lparr>arn := output ''PipelineExecutionRole''\<rparr>,
           cloudformation_execution_role :=
             (cloudformation_execution_role self)\<lparr>arn := output ''CloudFormationExecutionRole''\<rparr>,
           artifacts_bucket := (artifacts_bucket self)\<lparr>arn := output ''ArtifactsBucket''\<rparr>,
           image_repository := (image_repository self)\<lparr>arn := output ''ImageRepository''\<rparr>\<rparr>"
    using assms False by (rule bootstrap_without_secret(2))
  ultimately show ?thesis by simp
next
  case True
  then obtain secret_id where
    sid: "output ''PipelineUserSecretKey'' = Some secret_id" "secret_id \<noteq> []"
    by (auto simp: truthy_def split: option.splits)
  show ?thesis
  proof (cases rule: secret_pair_cases [of w secret_id "aws_profile self" "aws_region self"])
    case (1 e)
    have "result_of (bootstrap w self c) = Inl e"
      using assms sid 1 by (rule bootstrap_secret_raises(1))
    moreover have "env_of (bootstrap w self c) =
        self\<lparr>pipeline_user := (pipeline_user self)\<lparr>arn := output ''PipelineUser''\<rparr>\<rparr>"
      using assms sid 1 by (rule bootstrap_secret_raises(2))
    ultimately show ?thesis by simp
  next
    case (2 key_id secret_key)
    have "result_of (bootstrap w self c) = Inr True"
      using assms sid 2 by (rule bootstrap_with_secret(1))
    moreover have "env_of (bootstrap w self c) =
      self\<lparr>pipeline_user := (pipeline_user self)
             \<lparr>arn := output ''PipelineUser'', access_key_id := Some key_id,
              secret_access_key := Some secret_key\<rparr>,
           pipeline_execution_role :=
             (pipeline_execution_role self)\<lparr>arn := output ''PipelineExecutionRole''\<rparr>,
           cloudformation_execution_role :=
             (cloudformation_execution_role self)\<lparr>arn := output ''CloudFormationExecutionRole''\<rparr>,
           artifacts_bucket := (artifacts_bucket self)\<lparr>arn := output ''ArtifactsBucket''\<rparr>,
           image_repository := (image_repository self)\<lparr>arn := output ''ImageRepository''\<rparr>\<rparr>"
      using assms sid 2 by (rule bootstrap_with_secret(2))
    ultimately show ?thesis by simp
  qed
qed

theorem bootstrap_captures_outputs_witness:
  "\<not> did_user_provide_all_required_resources env_repository_given \<and>
   result_of (bootstrap world_ok env_repository_given False) = Inr True \<and>
   arn (image_repository env_repository_given)
     = Some ''arn:aws:ecr:us-east-1:123456789012:repository/my-repo'' \<and>
   stack_output_created ''ImageRepository'' = None \<and>
   arn (image_repository (env_of (bootstrap world_ok env_repository_given False))) = None \<and>
   arn (pipeline_execution_role (env_of (bootstrap world_ok env_repository_given False)))
     = Some ''arn:aws:iam::123456789012:role/new-pipeline-exec'' \<and>
   arn (pipeline_user (env_of (bootstrap world_ok env_repository_given False)))
     = Some ''arn:aws:iam::123456789012:user/new-user'' \<and>
   name (env_of (bootstrap world_ok env_repository_given False)) = ''Beta'' \<and>
   result_of (bootstrap world_secret_denied env_role_given False) \<noteq> Inr True \<and>
   pipeline_execution_role (env_of (bootstrap world_secret_denied env_role_given False))
     = pipeline_execution_role env_role_given"
proof -
  have missing: "\<not> did_user_provide_all_required_resources env_repository_given"
    by (rule did_user_provide_all_required_resources_examples(3))
  have go: "False \<longrightarrow> click_confirm world_ok ''Should we proceed with the creation?''"
    by simp
  have returned: "result_of (bootstrap world_ok env_repository_given False) = Inr True"
    using missing go read_template_examples(1) manage_stack_examples(1) secret_key_example
      secret_pair_example
    by (rule bootstrap_with_secret(1))
  have role_missing: "\<not> did_user_provide_all_required_resources env_role_given"
    by (rule did_user_provide_all_required_resources_examples(4))
  have role_go: "False \<longrightarrow> click_confirm world_secret_denied ''Should we proceed with the creation?''"
    by simp
  have raised: "result_of (bootstrap world_secret_denied env_role_given False)
      = Inl (Exception ''AccessDeniedException'')"
    using role_missing role_go read_template_examples(2) manage_stack_examples(2)
      secret_key_example secret_pair_denied
    by (rule bootstrap_secret_raises(1))
  have kept: "result_of (bootstrap world_secret_denied env_role_given False) \<noteq> Inr True \<and>
     pipeline_execution_role (env_of (bootstrap world_secret_denied env_role_given False))
       = pipeline_execution_role env_role_given"
    using bootstrap_captures_outputs
      [OF role_missing role_go read_template_examples(2) manage_stack_examples(2)] raised
    by simp
  show ?thesis
    using bootstrap_captures_outputs
      [OF missing go read_template_examples(1) manage_stack_examples(1)] missing returned kept
    by (simp add: example_defs)
qed

text \<open>
  As the specification states it, C10 fails where the secret lookup raises after a successful
  provisioning call: the ARN of the pipeline execution role is still the one the
  caller supplied and the ARN of the artifacts bucket is still unset, though the
  backend's outputs hold a value for both.
\<close>

theorem provisioned_role_not_captured:
  "manage_stack world_secret_denied (get_stack_name env_role_given)
      (aws_region env_role_given) (aws_profile env_role_given) ''Resources: {}''
      (parameter_overrides env_role_given)
     = Inr stack_output_created \<and>
   stack_output_created ''PipelineExecutionRole''
     = Some ''arn:aws:iam::123456789012:role/new-pipeline-exec'' \<and>
   stack_output_created ''ArtifactsBucket'' = Some ''arn:aws:s3:::new-bucket'' \<and>
   result_of (bootstrap world_secret_denied env_role_given False)
     = Inl (Exception ''AccessDeniedException'') \<and>
   arn (pipeline_execution_role (env_of (bootstrap world_secret_denied env_role_given False)))
     = Some ''arn:aws:iam::123456789012:role/pipeline-exec'' \<and>
   arn (artifacts_bucket (env_of (bootstrap world_secret_denied env_role_given False))) = None"
proof -
  have missing: "\<not> did_user_provide_all_required_resources env_role_given"
    by (rule did_user_provide_all_required_resources_examples(4))
  have go: "False \<longrightarrow> click_confirm world_secret_denied ''Should we proceed with the creation?''"
    by simp
  show ?thesis
    using bootstrap_secret_raises(1,2)
      [OF missing go read_template_examples(2) manage_stack_examples(2) secret_key_example
        secret_pair_denied]
    by (simp add: manage_stack_examples) (simp add: example_defs)
qed

section \<open>Saving the configuration\<close>

text \<open>What a store that accepts every write is given, and the events of any run.\<close>

lemma put_environment_specific_configs_accepted:
  assumes "\<And>c s k v e. samconfig_put w c s k v e = None"
  shows "put_environment_specific_configs w cmd_names env items =
     (Inr (), [SamConfigPut cmd_names ''parameters'' key v (Some env).
                 (key, Some v) \<leftarrow> items, v \<noteq> []])"
proof (induction items)
  case Nil
  show ?case by simp
next
  case (Cons item items)
  obtain key v where item: "item = (key, v)" by (cases item)
  show ?case
    using Cons assms by (cases v) (simp_all add: item truthy_def or_empty_def)
qed

lemma put_environment_specific_configs_events:
  "ev \<in> set (snd (put_environment_specific_configs w cmd_names env items)) \<Longrightarrow>
     \<exists>key v. ev = SamConfigPut cmd_names ''parameters'' key v (Some env) \<and>
       (key, Some v) \<in> set items \<and> v \<noteq> []"
proof (induction items)
  case Nil
  then show ?case by simp
next
  case (Cons item items)
  obtain key v where item: "item = (key, v)" by (cases item)
  show ?case
  proof (cases "truthy v")
    case False
    with Cons item show ?thesis by auto
  next
    case True
    then obtain s where v: "v = Some s" "s \<noteq> []"
      by (auto simp: truthy_def split: option.splits)
    show ?thesis
    proof (cases "samconfig_put w cmd_names ''parameters'' key s (Some env)")
      case None
      with Cons item v show ?thesis
        by (auto simp: truthy_def or_empty_def split: prod.splits)
    next
      case (Some e)
      with Cons.prems item v show ?thesis
        by (auto simp: truthy_def or_empty_def)
    qed
  qed
qed

lemma save_config_accepted:
  assumes "samconfig_new w config_dir filename = None"
    and "\<And>c s k v e. samconfig_put w c s k v e = None"
    and "samconfig_flush w = None"
    and "except_ValueError (resource_name w (artifacts_bucket self)) = Inr artifacts_bucket_name"
    and "except_ValueError (get_uri w (image_repository self)) = Inr image_repository_uri"
  shows "save_config w self config_dir filename cmd_names =
     (Inr (),
      SamConfigNew config_dir filename #
      (if truthy (arn (pipeline_user self))
       then [SamConfigPut cmd_names ''parameters'' PIPELINE_USER
               (or_empty (arn (pipeline_user self))) None]
       else []) @
      [SamConfigPut cmd_names ''parameters'' key v (Some (name self)).
         (key, Some v) \<leftarrow>
           [(PIPELINE_EXECUTION_ROLE, arn (pipeline_execution_role self)),
            (CLOUDFORMATION_EXECUTION_ROLE, arn (cloudformation_execution_role self)),
            (ARTIFACTS_BUCKET, artifacts_bucket_name),
            (ECR_IMAGE_REPOSITORY, image_repository_uri),
            (REGION, aws_region self)],
         v \<noteq> []] @
      [SamConfigFlush])"
  using assms(1,3,4,5)
  by (simp add: save_config_def Let_def assms(2)
      put_environment_specific_configs_accepted [OF assms(2)])

lemma save_config_events:
  assumes "ev \<in> set (snd (save_config w self config_dir filename cmd_names))"
  shows "ev = SamConfigNew config_dir filename \<or>
     ev = SamConfigPut cmd_names ''parameters'' PIPELINE_USER
            (or_empty (arn (pipeline_user self))) None \<or>
     (\<exists>key v. ev = SamConfigPut cmd_names ''parameters'' key v (Some (name self)) \<and>
        key \<in> {PIPELINE_EXECUTION_ROLE, CLOUDFORMATION_EXECUTION_ROLE, ARTIFACTS_BUCKET,
          ECR_IMAGE_REPOSITORY, REGION}) \<or>
     ev = SamConfigFlush"
proof -
  have items: "\<exists>key v. ev = SamConfigPut cmd_names ''parameters'' key v (Some (name self)) \<and>
        key \<in> {PIPELINE_EXECUTION_ROLE, CLOUDFORMATION_EXECUTION_ROLE, ARTIFACTS_BUCKET,
          ECR_IMAGE_REPOSITORY, REGION}"
    if "ev \<in> set (snd (put_environment_specific_configs w cmd_names (name self)
        [(PIPELINE_EXECUTION_ROLE, a), (CLOUDFORMATION_EXECUTION_ROLE, b),
         (ARTIFACTS_BUCKET, c), (ECR_IMAGE_REPOSITORY, d), (REGION, e)]))" for a b c d e
    using put_environment_specific_configs_events [OF that] by auto
  show ?thesis
  proof (cases "samconfig_new w config_dir filename")
    case (Some x)
    with assms show ?thesis by (simp add: save_config_def)
  next
    case None
    note new = this
    show ?thesis
    proof (cases "truthy (arn (pipeline_user self)) \<and>
        samconfig_put w cmd_names ''parameters'' PIPELINE_USER
          (or_empty (arn (pipeline_user self))) None \<noteq> None")
      case True
      with assms new show ?thesis by (auto simp: save_config_def)
    next
      case False
      note user = this
      show ?thesis
      proof (cases "except_ValueError (resource_name w (artifacts_bucket self))")
        case (Inl x)
        with assms new user show ?thesis
          by (auto simp: save_config_def split: if_splits)
      next
        case (Inr bucket_name)
        note bucket = this
        show ?thesis
        proof (cases "except_ValueError (get_uri w (image_repository self))")
          case (Inl x)
          with assms new user bucket show ?thesis
            by (auto simp: save_config_def split: if_splits)
        next
          case (Inr uri)
          obtain r env_puts where puts:
            "put_environment_specific_configs w cmd_names (name self)
               [(PIPELINE_EXECUTION_ROLE, arn (pipeline_execution_role self)),
                (CLOUDFORMATION_EXECUTION_ROLE, arn (cloudformation_execution_role self)),
                (ARTIFACTS_BUCKET, bucket_name), (ECR_IMAGE_REPOSITORY, uri),
                (REGION, aws_region self)] = (r, env_puts)"
            by (cases "put_environment_specific_configs w cmd_names (name self)
               [(PIPELINE_EXECUTION_ROLE, arn (pipeline_execution_role self)),
                (CLOUDFORMATION_EXECUTION_ROLE, arn (cloudformation_execution_role self)),
                (ARTIFACTS_BUCKET, bucket_name), (ECR_IMAGE_REPOSITORY, uri),
                (REGION, aws_region self)]")
          have in_puts: ?thesis if "ev \<in> set env_puts"
          proof -
            from that have "ev \<in> set (snd (put_environment_specific_configs w cmd_names (name self)
               [(PIPELINE_EXECUTION_ROLE, arn (pipeline_execution_role self)),
                (CLOUDFORMATION_EXECUTION_ROLE, arn (cloudformation_execution_role self)),
                (ARTIFACTS_BUCKET, bucket_name), (ECR_IMAGE_REPOSITORY, uri),
                (REGION, aws_region self)]))"
              by (simp only: puts snd_conv)
            from items [OF this] show ?thesis by blast
          qed
          from assms new user bucket Inr puts
          have "ev = SamConfigNew config_dir filename \<or>
             ev = SamConfigPut cmd_names ''parameters'' PIPELINE_USER
                    (or_empty (arn (pipeline_user self))) None \<or>
             ev \<in> set env_puts \<or> ev = SamConfigFlush"
            by (cases r; cases "samconfig_flush w")
               (auto simp: save_config_def Let_def simp del: put_environment_specific_configs.simps
                  split: if_splits)
          with in_puts show ?thesis by blast
        qed
      qed
    qed
  qed
qed

lemma puts_append: "puts (xs @ ys) = puts xs @ puts ys"
  by (induction xs rule: puts.induct) simp_all

lemma puts_accepted:
  "puts [SamConfigPut cmd_names ''parameters'' key v (Some env). (key, Some v) \<leftarrow> items, v \<noteq> []]
     = [(cmd_names, ''parameters'', key, v, Some env). (key, Some v) \<leftarrow> items, v \<noteq> []]"
  by (induction items) (auto split: option.splits)

lemma puts_save_config_accepted:
  assumes "samconfig_new w config_dir filename = None"
    and "\<And>c s k v e. samconfig_put w c s k v e = None"
    and "samconfig_flush w = None"
    and "except_ValueError (resource_name w (artifacts_bucket self)) = Inr artifacts_bucket_name"
    and "except_ValueError (get_uri w (image_repository self)) = Inr image_repository_uri"
  shows "fst (save_config w self config_dir filename cmd_names) = Inr ()"
    and "puts (snd (save_config w self config_dir filename cmd_names)) =
      [(cmd_names, ''parameters'', key, v, scope).
         (key, Some v, scope) \<leftarrow>
           [(PIPELINE_USER, arn (pipeline_user self), None),
            (PIPELINE_EXECUTION_ROLE, arn (pipeline_execution_role self), Some (name self)),
            (CLOUDFORMATION_EXECUTION_ROLE, arn (cloudformation_execution_role self),
               Some (name self)),
            (ARTIFACTS_BUCKET, artifacts_bucket_name, Some (name self)),
            (ECR_IMAGE_REPOSITORY, image_repository_uri, Some (name self)),
            (REGION, aws_region self, Some (name self))],
         v \<noteq> []]"
proof -
  note log = save_config_accepted [OF assms, of cmd_names]
  show "fst (save_config w self config_dir filename cmd_names) = Inr ()"
    by (simp add: log)
  show "puts (snd (save_config w self config_dir filename cmd_names)) =
      [(cmd_names, ''parameters'', key, v, scope).
         (key, Some v, scope) \<leftarrow>
           [(PIPELINE_USER, arn (pipeline_user self), None),
            (PIPELINE_EXECUTION_ROLE, arn (pipeline_execution_role self), Some (name self)),
            (CLOUDFORMATION_EXECUTION_ROLE, arn (cloudformation_execution_role self),
               Some (name self)),
            (ARTIFACTS_BUCKET, artifacts_bucket_name, Some (name self)),
            (ECR_IMAGE_REPOSITORY, image_repository_uri, Some (name self)),
            (REGION, aws_region self, Some (name self))],
         v \<noteq> []]"
    unfolding log snd_conv
    by (cases "arn (pipeline_user self)")
       (simp_all add: puts_append truthy_def or_empty_def split: option.split)
qed

text \<open>The example stores accept every write.\<close>

lemma store_examples:
  "samconfig_new world_ok d f = None"
  "samconfig_put world_ok c s k v e = None"
  "samconfig_flush world_ok = None"
  "samconfig_new world_bad_bucket d f = None"
  "samconfig_put world_bad_bucket c s k v e = None"
  "samconfig_flush world_bad_bucket = None"
  "samconfig_new world_bad_repository d f = None"
  "samconfig_put world_bad_repository c s k v e = None"
  "samconfig_flush world_bad_repository = None"
  by (simp_all add: world_ok_def world_bad_bucket_def world_bad_repository_def)

text \<open>
  C3 (amended). Where the configuration store accepts the writes: when \<^verbatim>\<open>name()\<close> of the
  artifacts bucket raises a \<^verbatim>\<open>ValueError\<close> (and \<^verbatim>\<open>get_uri()\<close> raises nothing else),
  \<^verbatim>\<open>save_config\<close> returns without raising, writes no pair for the key \<^verbatim>\<open>artifacts_bucket\<close>
  and writes the pair of every other key whose value is non-empty; likewise for
  \<^verbatim>\<open>get_uri()\<close> of the image repository and the key \<^verbatim>\<open>image_repository\<close>.
\<close>

theorem save_config_swallows_ValueError:
  assumes "samconfig_new w config_dir filename = None"
    and "\<And>c s k v e. samconfig_put w c s k v e = None"
    and "samconfig_flush w = None"
  shows
    "(resource_name w (artifacts_bucket self) = Inl (ValueError m) \<and>
      except_ValueError (get_uri w (image_repository self)) = Inr image_repository_uri \<longrightarrow>
        fst (save_config w self config_dir filename cmd_names) = Inr () \<and>
        puts (snd (save_config w self config_dir filename cmd_names)) =
          [(cmd_names, ''parameters'', key, v, scope).
             (key, Some v, scope) \<leftarrow>
               [(PIPELINE_USER, arn (pipeline_user self), None),
                (PIPELINE_EXECUTION_ROLE, arn (pipeline_execution_role self), Some (name self)),
                (CLOUDFORMATION_EXECUTION_ROLE, arn (cloudformation_execution_role self),
                   Some (name self)),
                (ECR_IMAGE_REPOSITORY, image_repository_uri, Some (name self)),
                (REGION, aws_region self, Some (name self))],
             v \<noteq> []]) \<and>
     (get_uri w (image_repository self) = Inl (ValueError m) \<and>
      except_ValueError (resource_name w (artifacts_bucket self)) = Inr artifacts_bucket_name \<longrightarrow>
        fst (save_config w self config_dir filename cmd_names) = Inr () \<and>
        puts (snd (save_config w self config_dir filename cmd_names)) =
          [(cmd_names, ''parameters'', key, v, scope).
             (key, Some v, scope) \<leftarrow>
               [(PIPELINE_USER, arn (pipeline_user self), None),
                (PIPELINE_EXECUTION_ROLE, arn (pipeline_execution_role self), Some (name self)),
                (CLOUDFORMATION_EXECUTION_ROLE, arn (cloudformation_execution_role self),
                   Some (name self)),
                (ARTIFACTS_BUCKET, artifacts_bucket_name, Some (name self)),
                (REGION, aws_region self, Some (name self))],
             v \<noteq> []])"
proof (intro conjI impI)
  assume bad: "resource_name w (artifacts_bucket self) = Inl (ValueError m) \<and>
      except_ValueError (get_uri w (image_repository self)) = Inr image_repository_uri"
  then have bucket: "except_ValueError (resource_name w (artifacts_bucket self)) = Inr (Some [])"
    by (simp add: except_ValueError_def)
  from bad have uri: "except_ValueError (get_uri w (image_repository self)) = Inr image_repository_uri"
    by simp
  show "fst (save_config w self config_dir filename cmd_names) = Inr ()"
    using assms bucket uri by (rule puts_save_config_accepted(1))
  show "puts (snd (save_config w self config_dir filename cmd_names)) =
          [(cmd_names, ''parameters'', key, v, scope).
             (key, Some v, scope) \<leftarrow>
               [(PIPELINE_USER, arn (pipeline_user self), None),
                (PIPELINE_EXECUTION_ROLE, arn (pipeline_execution_role self), Some (name self)),
                (CLOUDFORMATION_EXECUTION_ROLE, arn (cloudformation_execution_role self),
                   Some (name self)),
                (ECR_IMAGE_REPOSITORY, image_repository_uri, Some (name self)),
                (REGION, aws_region self, Some (name self))],
             v \<noteq> []]"
    by (simp add: puts_save_config_accepted(2) [OF assms bucket uri])
next
  assume bad: "get_uri w (image_repository self) = Inl (ValueError m) \<and>
      except_ValueError (resource_name w (artifacts_bucket self)) = Inr artifacts_bucket_name"
  then have uri: "except_ValueError (get_uri w (image_repository self)) = Inr (Some [])"
    by (simp add: except_ValueError_def)
  from bad have bucket:
    "except_ValueError (resource_name w (artifacts_bucket self)) = Inr artifacts_bucket_name"
    by simp
  show "fst (save_config w self config_dir filename cmd_names) = Inr ()"
    using assms bucket uri by (rule puts_save_config_accepted(1))
  show "puts (snd (save_config w self config_dir filename cmd_names)) =
          [(cmd_names, ''parameters'', key, v, scope).
             (key, Some v, scope) \<leftarrow>
               [(PIPELINE_USER, arn (pipeline_user self), None),
                (PIPELINE_EXECUTION_ROLE, arn (pipeline_execution_role self), Some (name self)),
                (CLOUDFORMATION_EXECUTION_ROLE, arn (cloudformation_execution_role self),
                   Some (name self)),
                (ARTIFACTS_BUCKET, artifacts_bucket_name, Some (name self)),
                (REGION, aws_region self, Some (name self))],
             v \<noteq> []]"
    by (simp add: puts_save_config_accepted(2) [OF assms bucket uri])
qed

theorem save_config_swallows_ValueError_witness:
  "resource_name world_bad_bucket (artifacts_bucket env_all_given) = Inl (ValueError ''Invalid ARN'') \<and>
   fst (save_config world_bad_bucket env_all_given ''.aws-sam/pipeline'' ''pipelineconfig.toml''
          [''pipeline'', ''bootstrap'']) = Inr () \<and>
   puts (snd (save_config world_bad_bucket env_all_given ''.aws-sam/pipeline''
          ''pipelineconfig.toml'' [''pipeline'', ''bootstrap''])) =
     [([''pipeline'', ''bootstrap''], ''parameters'', ''pipeline_user'',
         ''arn:aws:iam::123456789012:user/pipeline'', None),
      ([''pipeline'', ''bootstrap''], ''parameters'', ''pipeline_execution_role'',
         ''arn:aws:iam::123456789012:role/pipeline-exec'', Some ''Beta''),
      ([''pipeline'', ''bootstrap''], ''parameters'', ''cloudformation_execution_role'',
         ''arn:aws:iam::123456789012:role/cfn-exec'', Some ''Beta''),
      ([''pipeline'', ''bootstrap''], ''parameters'', ''region'', ''us-east-1'', Some ''Beta'')] \<and>
   get_uri world_bad_repository (image_repository env_all_given)
     = Inl (ValueError ''Invalid ECR ARN'') \<and>
   fst (save_config world_bad_repository env_all_given ''.aws-sam/pipeline'' ''pipelineconfig.toml''
          [''pipeline'', ''bootstrap'']) = Inr () \<and>
   puts (snd (save_config world_bad_repository env_all_given ''.aws-sam/pipeline''
          ''pipelineconfig.toml'' [''pipeline'', ''bootstrap''])) =
     [([''pipeline'', ''bootstrap''], ''parameters'', ''pipeline_user'',
         ''arn:aws:iam::123456789012:user/pipeline'', None),
      ([''pipeline'', ''bootstrap''], ''parameters'', ''pipeline_execution_role'',
         ''arn:aws:iam::123456789012:role/pipeline-exec'', Some ''Beta''),
      ([''pipeline'', ''bootstrap''], ''parameters'', ''cloudformation_execution_role'',
         ''arn:aws:iam::123456789012:role/cfn-exec'', Some ''Beta''),
      ([''pipeline'', ''bootstrap''], ''parameters'', ''artifacts_bucket'', ''new-bucket'',
         Some ''Beta''),
      ([''pipeline'', ''bootstrap''], ''parameters'', ''region'', ''us-east-1'', Some ''Beta'')]"
proof -
  have bucket: "resource_name world_bad_bucket r = Inl (ValueError ''Invalid ARN'')"
    "except_ValueError (get_uri world_bad_bucket r) = Inr None" for r
    by (simp_all add: world_bad_bucket_def world_ok_def except_ValueError_def)
  have repository: "get_uri world_bad_repository r = Inl (ValueError ''Invalid ECR ARN'')"
    "except_ValueError (resource_name world_bad_repository r) = Inr (Some ''new-bucket'')" for r
    by (simp_all add: world_bad_repository_def world_ok_def except_ValueError_def)
  note first = save_config_swallows_ValueError
    [OF store_examples(4-6),
     where config_dir = "''.aws-sam/pipeline''" and filename = "''pipelineconfig.toml''"
       and self = env_all_given and m = "''Invalid ARN''" and image_repository_uri = None
       and cmd_names = "[''pipeline'', ''bootstrap'']"]
  note second = save_config_swallows_ValueError
    [OF store_examples(7-9),
     where config_dir = "''.aws-sam/pipeline''" and filename = "''pipelineconfig.toml''"
       and self = env_all_given and m = "''Invalid ECR ARN''"
       and artifacts_bucket_name = "Some ''new-bucket''"
       and cmd_names = "[''pipeline'', ''bootstrap'']"]
  show ?thesis
    using first second
    by (simp add: bucket repository)
       (simp add: env_all_given_def Environment_init_def Resource_init_def IAMUser_init_def
          PIPELINE_USER_def PIPELINE_EXECUTION_ROLE_def CLOUDFORMATION_EXECUTION_ROLE_def
          ARTIFACTS_BUCKET_def ECR_IMAGE_REPOSITORY_def REGION_def)
qed

text \<open>
  As the specification states it, C3 fails: with every ARN given and a bucket ARN that \<^verbatim>\<open>name()\<close>
  rejects, the whole log of \<^verbatim>\<open>save_config\<close> holds no write for the key \<^verbatim>\<open>artifacts_bucket\<close>,
  so no empty string is written for it.
\<close>

theorem bad_bucket_arn_writes_no_pair:
  "resource_name world_bad_bucket (artifacts_bucket env_all_given) = Inl (ValueError ''Invalid ARN'') \<and>
   save_config world_bad_bucket env_all_given ''.aws-sam/pipeline'' ''pipelineconfig.toml''
       [''pipeline'', ''bootstrap''] =
     (Inr (),
      [SamConfigNew ''.aws-sam/pipeline'' ''pipelineconfig.toml'',
       SamConfigPut [''pipeline'', ''bootstrap''] ''parameters'' ''pipeline_user''
         ''arn:aws:iam::123456789012:user/pipeline'' None,
       SamConfigPut [''pipeline'', ''bootstrap''] ''parameters'' ''pipeline_execution_role''
         ''arn:aws:iam::123456789012:role/pipeline-exec'' (Some ''Beta''),
       SamConfigPut [''pipeline'', ''bootstrap''] ''parameters'' ''cloudformation_execution_role''
         ''arn:aws:iam::123456789012:role/cfn-exec'' (Some ''Beta''),
       SamConfigPut [''pipeline'', ''bootstrap''] ''parameters'' ''region'' ''us-east-1''
         (Some ''Beta''),
       SamConfigFlush])"
proof -
  have bucket: "resource_name world_bad_bucket r = Inl (ValueError ''Invalid ARN'')"
    "except_ValueError (resource_name world_bad_bucket r) = Inr (Some [])"
    "except_ValueError (get_uri world_bad_bucket r) = Inr None" for r
    by (simp_all add: world_bad_bucket_def world_ok_def except_ValueError_def)
  show ?thesis
    using save_config_accepted [OF store_examples(4-6) bucket(2,3),
        where config_dir = "''.aws-sam/pipeline''" and filename = "''pipelineconfig.toml''"
          and self = env_all_given and cmd_names = "[''pipeline'', ''bootstrap'']"]
    by (simp add: bucket(1))
       (simp add: env_all_given_def Environment_init_def Resource_init_def IAMUser_init_def
          truthy_def or_empty_def
          PIPELINE_USER_def PIPELINE_EXECUTION_ROLE_def CLOUDFORMATION_EXECUTION_ROLE_def
          ARTIFACTS_BUCKET_def ECR_IMAGE_REPOSITORY_def REGION_def)
qed

text \<open>
  C8 (amended). Every pair that \<^verbatim>\<open>save_config\<close> writes is put at the \<^verbatim>\<open>cmd_names\<close> path under
  the section \<^verbatim>\<open>parameters\<close>; the pair of the key \<^verbatim>\<open>pipeline_user\<close> is put with no
  environment argument, the pairs of the other keys under the environment's name. Where
  the configuration store accepts the writes and the derived values are computed
  (\<^verbatim>\<open>ValueError\<close> giving the empty string), the pairs written are those of the six keys
  whose value is non-empty, in the order of the source.
\<close>

theorem save_config_writes:
  "(SamConfigPut path sect key v scope
      \<in> set (snd (save_config w self config_dir filename cmd_names)) \<longrightarrow>
      path = cmd_names \<and> sect = ''parameters'' \<and>
      (if key = PIPELINE_USER then scope = None else scope = Some (name self))) \<and>
   (samconfig_new w config_dir filename = None \<and>
    (\<forall>c s k x e. samconfig_put w c s k x e = None) \<and>
    samconfig_flush w = None \<and>
    except_ValueError (resource_name w (artifacts_bucket self)) = Inr artifacts_bucket_name \<and>
    except_ValueError (get_uri w (image_repository self)) = Inr image_repository_uri \<longrightarrow>
      puts (snd (save_config w self config_dir filename cmd_names)) =
        [(cmd_names, ''parameters'', key, v, scope).
           (key, Some v, scope) \<leftarrow>
             [(PIPELINE_USER, arn (pipeline_user self), None),
              (PIPELINE_EXECUTION_ROLE, arn (pipeline_execution_role self), Some (name self)),
              (CLOUDFORMATION_EXECUTION_ROLE, arn (cloudformation_execution_role self),
                 Some (name self)),
              (ARTIFACTS_BUCKET, artifacts_bucket_name, Some (name self)),
              (ECR_IMAGE_REPOSITORY, image_repository_uri, Some (name self)),
              (REGION, aws_region self, Some (name self))],
           v \<noteq> []])"
proof (intro conjI impI)
  assume "SamConfigPut path sect key v scope
      \<in> set (snd (save_config w self config_dir filename cmd_names))"
  from save_config_events [OF this]
  show "path = cmd_names" and "sect = ''parameters''"
    and "if key = PIPELINE_USER then scope = None else scope = Some (name self)"
    by (auto simp: PIPELINE_USER_def PIPELINE_EXECUTION_ROLE_def
        CLOUDFORMATION_EXECUTION_ROLE_def ARTIFACTS_BUCKET_def ECR_IMAGE_REPOSITORY_def
        REGION_def)
next
  assume accepted: "samconfig_new w config_dir filename = None \<and>
    (\<forall>c s k x e. samconfig_put w c s k x e = None) \<and>
    samconfig_flush w = None \<and>
    except_ValueError (resource_name w (artifacts_bucket self)) = Inr artifacts_bucket_name \<and>
    except_ValueError (get_uri w (image_repository self)) = Inr image_repository_uri"
  then have put: "\<And>c s k x e. samconfig_put w c s k x e = None"
    by blast
  from accepted show "puts (snd (save_config w self config_dir filename cmd_names)) =
        [(cmd_names, ''parameters'', key, v, scope).
           (key, Some v, scope) \<leftarrow>
             [(PIPELINE_USER, arn (pipeline_user self), None),
              (PIPELINE_EXECUTION_ROLE, arn (pipeline_execution_role self), Some (name self)),
              (CLOUDFORMATION_EXECUTION_ROLE, arn (cloudformation_execution_role self),
                 Some (name self)),
              (ARTIFACTS_BUCKET, artifacts_bucket_name, Some (name self)),
              (ECR_IMAGE_REPOSITORY, image_repository_uri, Some (name self)),
              (REGION, aws_region self, Some (name self))],
           v \<noteq> []]"
    by (intro puts_save_config_accepted(2) put) simp_all
qed

text \<open>The whole log of \<^verbatim>\<open>save_config\<close> for an environment with every ARN given.\<close>

lemma save_config_example:
  "save_config world_ok env_all_given ''.aws-sam/pipeline'' ''pipelineconfig.toml''
       [''pipeline'', ''bootstrap''] =
     (Inr (),
      [SamConfigNew ''.aws-sam/pipeline'' ''pipelineconfig.toml'',
       SamConfigPut [''pipeline'', ''bootstrap''] ''parameters'' ''pipeline_user''
         ''arn:aws:iam::123456789012:user/pipeline'' None,
       SamConfigPut [''pipeline'', ''bootstrap''] ''parameters'' ''pipeline_execution_role''
         ''arn:aws:iam::123456789012:role/pipeline-exec'' (Some ''Beta''),
       SamConfigPut [''pipeline'', ''bootstrap''] ''parameters'' ''cloudformation_execution_role''
         ''arn:aws:iam::123456789012:role/cfn-exec'' (Some ''Beta''),
       SamConfigPut [''pipeline'', ''bootstrap''] ''parameters'' ''artifacts_bucket''
         ''new-bucket'' (Some ''Beta''),
       SamConfigPut [''pipeline'', ''bootstrap''] ''parameters'' ''region'' ''us-east-1''
         (Some ''Beta''),
       SamConfigFlush])"
proof -
  have derived: "except_ValueError (resource_name world_ok r) = Inr (Some ''new-bucket'')"
    "except_ValueError (get_uri world_ok r) = Inr None" for r
    by (simp_all add: world_ok_def except_ValueError_def)
  show ?thesis
    using save_config_accepted [OF store_examples(1-3) derived,
        where config_dir = "''.aws-sam/pipeline''" and filename = "''pipelineconfig.toml''"
          and self = env_all_given and cmd_names = "[''pipeline'', ''bootstrap'']"]
    by (simp add: env_all_given_def Environment_init_def Resource_init_def IAMUser_init_def
          truthy_def or_empty_def
          PIPELINE_USER_def PIPELINE_EXECUTION_ROLE_def CLOUDFORMATION_EXECUTION_ROLE_def
          ARTIFACTS_BUCKET_def ECR_IMAGE_REPOSITORY_def REGION_def)
qed

theorem save_config_writes_witness:
  "SamConfigPut [''pipeline'', ''bootstrap''] ''parameters'' ''region'' ''us-east-1'' (Some ''Beta'')
     \<in> set (snd (save_config world_ok env_all_given ''.aws-sam/pipeline'' ''pipelineconfig.toml''
          [''pipeline'', ''bootstrap''])) \<and>
   name env_all_given = ''Beta'' \<and>
   puts (snd (save_config world_ok env_all_given ''.aws-sam/pipeline'' ''pipelineconfig.toml''
          [''pipeline'', ''bootstrap''])) =
     [([''pipeline'', ''bootstrap''], ''parameters'', ''pipeline_user'',
         ''arn:aws:iam::123456789012:user/pipeline'', None),
      ([''pipeline'', ''bootstrap''], ''parameters'', ''pipeline_execution_role'',
         ''arn:aws:iam::123456789012:role/pipeline-exec'', Some ''Beta''),
      ([''pipeline'', ''bootstrap''], ''parameters'', ''cloudformation_execution_role'',
         ''arn:aws:iam::123456789012:role/cfn-exec'', Some ''Beta''),
      ([''pipeline'', ''bootstrap''], ''parameters'', ''artifacts_bucket'', ''new-bucket'',
         Some ''Beta''),
      ([''pipeline'', ''bootstrap''], ''parameters'', ''region'', ''us-east-1'', Some ''Beta'')]"
proof -
  have derived: "except_ValueError (resource_name world_ok r) = Inr (Some ''new-bucket'')"
    "except_ValueError (get_uri world_ok r) = Inr None" for r
    by (simp_all add: world_ok_def except_ValueError_def)
  have written: "SamConfigPut [''pipeline'', ''bootstrap''] ''parameters'' ''region'' ''us-east-1''
      (Some ''Beta'')
     \<in> set (snd (save_config world_ok env_all_given ''.aws-sam/pipeline'' ''pipelineconfig.toml''
          [''pipeline'', ''bootstrap'']))"
    by (simp add: save_config_example)
  show ?thesis
    using save_config_writes
      [where w = world_ok and self = env_all_given and config_dir = "''.aws-sam/pipeline''"
         and filename = "''pipelineconfig.toml''" and cmd_names = "[''pipeline'', ''bootstrap'']"
         and path = "[''pipeline'', ''bootstrap'']" and sect = "''parameters''"
         and key = "''region''" and v = "''us-east-1''" and scope = "Some ''Beta''"
         and artifacts_bucket_name = "Some ''new-bucket''" and image_repository_uri = None]
      written
    by (simp add: derived store_examples)
       (simp add: env_all_given_def Environment_init_def Resource_init_def IAMUser_init_def
          PIPELINE_USER_def PIPELINE_EXECUTION_ROLE_def CLOUDFORMATION_EXECUTION_ROLE_def
          ARTIFACTS_BUCKET_def ECR_IMAGE_REPOSITORY_def REGION_def)
qed

text \<open>
  As the specification states it, C8 fails for the pipeline user: its pair is written with no
  environment argument, not under the environment's name.
\<close>

theorem pipeline_user_written_without_environment:
  "name env_all_given = ''Beta'' \<and>
   SamConfigPut [''pipeline'', ''bootstrap''] ''parameters'' ''pipeline_user''
       ''arn:aws:iam::123456789012:user/pipeline'' None
     \<in> set (snd (save_config world_ok env_all_given ''.aws-sam/pipeline'' ''pipelineconfig.toml''
          [''pipeline'', ''bootstrap''])) \<and>
   SamConfigPut [''pipeline'', ''bootstrap''] ''parameters'' ''pipeline_user''
       ''arn:aws:iam::123456789012:user/pipeline'' (Some ''Beta'')
     \<notin> set (snd (save_config world_ok env_all_given ''.aws-sam/pipeline'' ''pipelineconfig.toml''
          [''pipeline'', ''bootstrap'']))"
  by (simp add: save_config_example) (simp add: env_all_given_def Environment_init_def)

text \<open>Stores that fail on \<^verbatim>\<open>flush()\<close>: what leaves \<^verbatim>\<open>save_config\<close>.\<close>

lemma save_config_raises_example:
  "fst (save_config world_store_fails env_all_given ''.aws-sam/pipeline'' ''pipelineconfig.toml''
          [''pipeline'', ''bootstrap'']) = Inl (Exception ''cannot write'')"
  "fst (save_config world_interrupted env_all_given ''.aws-sam/pipeline'' ''pipelineconfig.toml''
          [''pipeline'', ''bootstrap'']) = Inl KeyboardInterrupt"
  by (simp_all add: save_config_def Let_def world_store_fails_def world_interrupted_def
      world_ok_def except_ValueError_def env_all_given_def Environment_init_def Resource_init_def
      IAMUser_init_def truthy_def or_empty_def split: prod.split)

text \<open>
  C9 (amended). Whatever the collaborators do, when \<^verbatim>\<open>save_config\<close> returns or raises an
  exception derived from \<^verbatim>\<open>Exception\<close>, \<^verbatim>\<open>save_config_safe\<close> returns normally; an
  exception that is not derived from \<^verbatim>\<open>Exception\<close> (\<^verbatim>\<open>KeyboardInterrupt\<close>, \<^verbatim>\<open>SystemExit\<close>)
  leaves \<^verbatim>\<open>save_config_safe\<close> as it left \<^verbatim>\<open>save_config\<close>. The calls made are those of
  \<^verbatim>\<open>save_config\<close>.
\<close>

theorem save_config_safe_catches_Exception:
  "((\<forall>e. fst (save_config w self config_dir filename cmd_names) = Inl e \<longrightarrow> is_Exception e) \<longrightarrow>
      fst (save_config_safe w self config_dir filename cmd_names) = Inr ()) \<and>
   (fst (save_config w self config_dir filename cmd_names) = Inl e \<and> \<not> is_Exception e \<longrightarrow>
      fst (save_config_safe w self config_dir filename cmd_names) = Inl e) \<and>
   snd (save_config_safe w self config_dir filename cmd_names)
     = snd (save_config w self config_dir filename cmd_names)"
proof -
  obtain r log where run: "save_config w self config_dir filename cmd_names = (r, log)"
    by (cases "save_config w self config_dir filename cmd_names")
  show ?thesis
  proof (cases r)
    case (Inl x)
    with run show ?thesis by (simp add: save_config_safe_def)
  next
    case (Inr u)
    with run show ?thesis by (simp add: save_config_safe_def)
  qed
qed

theorem save_config_safe_catches_Exception_witness:
  "fst (save_config world_store_fails env_all_given ''.aws-sam/pipeline'' ''pipelineconfig.toml''
          [''pipeline'', ''bootstrap'']) = Inl (Exception ''cannot write'') \<and>
   is_Exception (Exception ''cannot write'') \<and>
   fst (save_config_safe world_store_fails env_all_given ''.aws-sam/pipeline''
          ''pipelineconfig.toml'' [''pipeline'', ''bootstrap'']) = Inr () \<and>
   fst (save_config world_interrupted env_all_given ''.aws-sam/pipeline'' ''pipelineconfig.toml''
          [''pipeline'', ''bootstrap'']) = Inl KeyboardInterrupt \<and>
   \<not> is_Exception KeyboardInterrupt \<and>
   fst (save_config_safe world_interrupted env_all_given ''.aws-sam/pipeline''
          ''pipelineconfig.toml'' [''pipeline'', ''bootstrap'']) = Inl KeyboardInterrupt"
  using save_config_safe_catches_Exception
      [where w = world_store_fails and self = env_all_given
         and config_dir = "''.aws-sam/pipeline''" and filename = "''pipelineconfig.toml''"
         and cmd_names = "[''pipeline'', ''bootstrap'']"]
    save_config_safe_catches_Exception
      [where w = world_interrupted and self = env_all_given
         and config_dir = "''.aws-sam/pipeline''" and filename = "''pipelineconfig.toml''"
         and cmd_names = "[''pipeline'', ''bootstrap'']" and e = KeyboardInterrupt]
  by (simp add: save_config_raises_example)

text \<open>
  As the specification states it, C9 fails where the user interrupts the writing of the
  configuration file: \<^verbatim>\<open>save_config\<close> raises \<^verbatim>\<open>KeyboardInterrupt\<close>, which the handler
  \<^verbatim>\<open>except Exception\<close> does not catch, and \<^verbatim>\<open>save_config_safe\<close> raises it too.
\<close>

theorem save_config_safe_raises_KeyboardInterrupt:
  "fst (save_config world_interrupted env_all_given ''.aws-sam/pipeline'' ''pipelineconfig.toml''
          [''pipeline'', ''bootstrap'']) = Inl KeyboardInterrupt \<and>
   fst (save_config_safe world_interrupted env_all_given ''.aws-sam/pipeline''
          ''pipelineconfig.toml'' [''pipeline'', ''bootstrap'']) = Inl KeyboardInterrupt"
proof -
  obtain log where run: "save_config world_interrupted env_all_given ''.aws-sam/pipeline''
      ''pipelineconfig.toml'' [''pipeline'', ''bootstrap''] = (Inl KeyboardInterrupt, log)"
    using save_config_raises_example(2)
    by (cases "save_config world_interrupted env_all_given ''.aws-sam/pipeline''
      ''pipelineconfig.toml'' [''pipeline'', ''bootstrap'']") simp
  show ?thesis
    by (simp add: save_config_safe_def run)
qed

end
